theory Spec2Isabelle
  imports Main
begin

section \<open>The webdriver-manager script: artifact reconciliation and server supervision\<close>

text \<open>
  The script under \<^verbatim>\<open>src/unnamed/part_000\<close> keeps a directory of downloaded
  binaries (the selenium standalone jar, chromedriver, IEDriver) up to date and starts
  the selenium server as a child process. It is a Node.js program: a synchronous part
  that runs from top to bottom, and handlers that the event loop calls later. The
  embedding keeps both: \<open>main\<close> is the synchronous part, \<open>deliver\<close> runs the handler
  of one event, and \<open>run\<close> delivers a list of events in order.

  The world of the script is written out as a record: the entries of the output
  directory with their contents, the lines printed on the console, the requests sent to
  the network, the fetches whose handlers are registered, the child processes spawned,
  and whether the script is still running. An uncaught exception or a call of
  \<^verbatim>\<open>process.exit\<close> ends the script: the status of the world says so, and nothing
  runs after it.
\<close>

subsection \<open>JavaScript strings\<close>

text \<open>
  \<^verbatim>\<open>s.indexOf(p)\<close> is the first index at which \<open>p\<close> occurs in \<open>s\<close>, and -1 when
  it does not occur; the empty string occurs at index 0.
\<close>

fun indexOf_from :: "nat \<Rightarrow> string \<Rightarrow> string \<Rightarrow> int" where
  "indexOf_from i [] p = (if p = [] then int i else - 1)"
| "indexOf_from i (c # cs) p =
     (if take (length p) (c # cs) = p then int i else indexOf_from (Suc i) cs p)"

definition indexOf :: "string \<Rightarrow> string \<Rightarrow> int" where
  "indexOf s p = indexOf_from 0 s p"

text \<open>\<^verbatim>\<open>s.lastIndexOf(p)\<close>: the last index at which \<open>p\<close> occurs, or -1.\<close>

definition lastIndexOf :: "string \<Rightarrow> string \<Rightarrow> int" where
  "lastIndexOf s p =
     (let r = indexOf (rev s) (rev p)
      in if r = - 1 then - 1 else int (length s) - r - int (length p))"

text \<open>
  \<^verbatim>\<open>s.slice(b, e)\<close>: a negative index counts from the end, both are clamped to the
  string, and an end before the start gives the empty string.
\<close>

definition slice :: "string \<Rightarrow> int \<Rightarrow> int \<Rightarrow> string" where
  "slice s b e =
     (let n = int (length s);
          from = (if b < 0 then max (n + b) 0 else min b n);
          to = (if e < 0 then max (n + e) 0 else min e n)
      in take (nat (to - from)) (drop (nat from) s))"

text \<open>A number concatenated to a string is written in decimal.\<close>

fun string_of_nat :: "nat \<Rightarrow> string" where
  "string_of_nat n =
     (if n < 10 then [char_of (48 + n)]
      else string_of_nat (n div 10) @ [char_of (48 + n mod 10)])"

declare string_of_nat.simps [simp del]

text \<open>
  \<^verbatim>\<open>path.join(dir, file)\<close> for a plain file name: the directory, a separator, the
  name. Every path the script builds is such a join of the output directory and a name,
  so the directory itself is modelled by the names of its entries. The separator is the
  one of POSIX and the output directory is taken as already normalised; on Windows
  \<^verbatim>\<open>path.join\<close> writes a backslash. Only the text of a log line and of the
  arguments of the child depends on it.
\<close>

definition path_join :: "string \<Rightarrow> string \<Rightarrow> string" where
  "path_join d f = d @ ''/'' @ f"

subsection \<open>Configuration read by the script\<close>

text \<open>
  \<^verbatim>\<open>config.json\<close> is not part of the sources at hand: the three version strings it
  holds are parameters. So are the host (\<^verbatim>\<open>os.type()\<close>, \<^verbatim>\<open>os.arch()\<close>,
  \<^verbatim>\<open>process.platform\<close>), the parsed command line, the archive decoder behind
  \<^verbatim>\<open>new AdmZip(file)\<close> (the entries of an archive, or nothing when the bytes are
  not an archive), the process id the operating system gives to the child (none when the
  spawn fails: \<^verbatim>\<open>seleniumProcess.pid\<close> is then \<^verbatim>\<open>undefined\<close>) and the text
  \<^verbatim>\<open>optimist.showHelp()\<close> prints.
\<close>

record versions =
  selenium :: string
  chromedriver :: string
  iedriver :: string

record host =
  os_type :: string
  os_arch :: string
  platform :: string

record argv =
  command :: string
  out_dir :: string
  seleniumPort :: "nat option"
  ignore_ssl :: bool
  argv_standalone :: bool
  argv_chrome :: bool
  argv_ie :: bool

record config =
  webdriverVersions :: versions
  hst :: host
  args :: argv
  unzip :: "string \<Rightarrow> (string \<times> string) list option"
  child_pid :: "nat option"
  help_text :: string

subsection \<open>The registry of binaries\<close>

definition shortVersion :: "string \<Rightarrow> string" where
  "shortVersion version = slice version 0 (lastIndexOf version ''.'')"

text \<open>
  One entry of \<^verbatim>\<open>binaries\<close>. The field \<open>url\<close> holds the result of calling
  \<^verbatim>\<open>bin.url()\<close> on this host: a function that falls off its end returns
  \<^verbatim>\<open>undefined\<close>, which is \<open>None\<close>. The fields \<open>exists\<close> and \<open>outOfDateExists\<close>
  are the ones the scan writes before any command runs.
\<close>

record binary =
  name :: string
  isDefault :: bool
  prefix :: string
  filename :: string
  url :: "string option"
  exists :: bool
  outOfDateExists :: bool

definition standalone_url :: "versions \<Rightarrow> string option" where
  "standalone_url v =
     Some (''https://selenium-release.storage.googleapis.com/'' @
           shortVersion (selenium v) @ ''/'' @
           ''selenium-server-standalone-'' @ selenium v @ ''.jar'')"

definition chrome_url :: "versions \<Rightarrow> host \<Rightarrow> string option" where
  "chrome_url v h =
     (let urlPrefix = ''https://chromedriver.storage.googleapis.com/'' @
            chromedriver v @ ''/chromedriver_''
      in if os_type h = ''Darwin'' then Some (urlPrefix @ ''mac32.zip'')
         else if os_type h = ''Linux'' then
           (if os_arch h = ''x64'' then Some (urlPrefix @ ''linux64.zip'')
            else Some (urlPrefix @ ''linux32.zip''))
         else if os_type h = ''Windows_NT'' then Some (urlPrefix @ ''win32.zip'')
         else None)"

definition ie_url :: "versions \<Rightarrow> host \<Rightarrow> string option" where
  "ie_url v h =
     (let urlPrefix = ''https://selenium-release.storage.googleapis.com/'' @
            shortVersion (iedriver v) @ ''/IEDriverServer''
      in if os_type h = ''Windows_NT'' then
           (if os_arch h = ''x64'' then Some (urlPrefix @ ''_x64_'' @ iedriver v @ ''.zip'')
            else Some (urlPrefix @ ''_Win32_'' @ iedriver v @ ''.zip''))
         else None)"

record binaries =
  standalone :: binary
  chrome :: binary
  ie :: binary

definition the_binaries :: "versions \<Rightarrow> host \<Rightarrow> binaries" where
  "the_binaries v h =
     \<lparr> standalone =
         \<lparr> name = ''selenium standalone'', isDefault = True,
           prefix = ''selenium-server-standalone'',
           filename = ''selenium-server-standalone-'' @ selenium v @ ''.jar'',
           url = standalone_url v, exists = False, outOfDateExists = False \<rparr>,
       chrome =
         \<lparr> name = ''chromedriver'', isDefault = True,
           prefix = ''chromedriver_'',
           filename = ''chromedriver_'' @ chromedriver v @ ''.zip'',
           url = chrome_url v h, exists = False, outOfDateExists = False \<rparr>,
       ie =
         \<lparr> name = ''IEDriver'', isDefault = False,
           prefix = ''IEDriverServer'',
           filename = ''IEDriverServer_'' @ iedriver v @ ''.zip'',
           url = ie_url v h, exists = False, outOfDateExists = False \<rparr> \<rparr>"

text \<open>\<^verbatim>\<open>!url\<close> holds for \<^verbatim>\<open>undefined\<close> and for the empty string.\<close>

definition falsy :: "string option \<Rightarrow> bool" where
  "falsy u = (case u of None \<Rightarrow> True | Some s \<Rightarrow> s = [])"

subsection \<open>The output directory\<close>

text \<open>
  The output directory is a list of entries, each a name with the bytes of the file.
  Only plain files directly inside the directory are modelled; permission bits are not.
  A listing gives every name once.
\<close>

type_synonym dir = "(string \<times> string) list"

definition readdirSync :: "dir \<Rightarrow> string list" where
  "readdirSync d = remdups (map fst d)"

definition existsSync :: "string \<Rightarrow> dir \<Rightarrow> bool" where
  "existsSync f d = (f \<in> set (map fst d))"

definition remove_entry :: "string \<Rightarrow> dir \<Rightarrow> dir" where
  "remove_entry f d = filter (\<lambda>e. fst e \<noteq> f) d"

definition writeFile :: "string \<Rightarrow> string \<Rightarrow> dir \<Rightarrow> dir" where
  "writeFile f c d = (f, c) # remove_entry f d"

definition appendFile :: "string \<Rightarrow> string \<Rightarrow> dir \<Rightarrow> dir" where
  "appendFile f c d = map (\<lambda>e. if fst e = f then (fst e, snd e @ c) else e) d"

definition readFile :: "string \<Rightarrow> dir \<Rightarrow> string option" where
  "readFile f d = map_of d f"

text \<open>
  \<^verbatim>\<open>zip.extractAllTo(dir, overwrite)\<close> of the adm-zip library writes the entries in
  the order of the archive; an entry whose name exists in the directory is written only
  when \<open>overwrite\<close> is true (the flag is false when the argument is left out), and is
  skipped silently otherwise.
\<close>

fun extractAllTo :: "(string \<times> string) list \<Rightarrow> bool \<Rightarrow> dir \<Rightarrow> dir" where
  "extractAllTo [] overwrite d = d"
| "extractAllTo ((n, c) # es) overwrite d =
     extractAllTo es overwrite
       (if existsSync n d \<and> \<not> overwrite then d else writeFile n c d)"

subsection \<open>The world of the script\<close>

datatype stream = Out | Err

datatype error =
    ENOENT string
  | INVALID_FILENAME string
  | INVALID_FORMAT string
  | UNHANDLED_ERROR string

datatype status = Alive | Exited nat | Uncaught error | Killed

text \<open>
  The callbacks of the script, as data. \<^verbatim>\<open>downloadIfNew\<close> always hands
  \<^verbatim>\<open>httpGetFile\<close> the same wrapper function, which calls \<^verbatim>\<open>opt_callback\<close>
  when there is one; \<^verbatim>\<open>opt_callback\<close> is absent for the standalone jar and is one
  of the two functions of the update command for the archives.
\<close>

datatype installer = ChromeInstall | IeInstall

datatype callback = Wrapper "installer option"

text \<open>
  A fetch is one call of \<^verbatim>\<open>httpGetFile\<close> whose request is under way. \<open>linked\<close>
  says whether the file its write stream holds open is still the directory entry of
  that name: data written after the entry was unlinked does not reach the directory.
\<close>

record fetch =
  fileUrl :: string
  fileName :: string
  fetch_callback :: "callback option"
  linked :: bool

record world =
  fs :: dir
  console :: "(stream \<times> string) list"
  requests :: "string list"
  pending :: "fetch list"
  spawned :: "(string \<times> string list) list"
  supervising :: bool
  status :: status

definition init :: "dir \<Rightarrow> world" where
  "init d = \<lparr> fs = d, console = [], requests = [], pending = [], spawned = [],
     supervising = False, status = Alive \<rparr>"

definition console_log :: "string \<Rightarrow> world \<Rightarrow> world" where
  "console_log s w = w\<lparr>console := console w @ [(Out, s)]\<rparr>"

definition console_error :: "string \<Rightarrow> world \<Rightarrow> world" where
  "console_error s w = w\<lparr>console := console w @ [(Err, s)]\<rparr>"

definition throw :: "error \<Rightarrow> world \<Rightarrow> world" where
  "throw e w = w\<lparr>status := Uncaught e\<rparr>"

definition process_exit :: "nat \<Rightarrow> world \<Rightarrow> world" where
  "process_exit code w = w\<lparr>status := Exited code\<rparr>"

text \<open>
  Removing a directory entry: the name goes, and a write stream that holds the file
  open is cut off from the directory. \<^verbatim>\<open>fs.unlinkSync\<close> throws when the entry is
  missing. \<^verbatim>\<open>fs.unlink\<close> is called without a callback: a failure is thrown again by
  the default callback, and nobody catches it.
\<close>

definition rm :: "string \<Rightarrow> world \<Rightarrow> world" where
  "rm f w = w\<lparr> fs := remove_entry f (fs w),
     pending := map (\<lambda>p. if fileName p = f then p\<lparr>linked := False\<rparr> else p) (pending w) \<rparr>"

definition unlinkSync :: "string \<Rightarrow> world \<Rightarrow> world" where
  "unlinkSync f w = (if existsSync f (fs w) then rm f w else throw (ENOENT f) w)"

definition unlink :: "string \<Rightarrow> world \<Rightarrow> world" where
  "unlink f w = (if existsSync f (fs w) then rm f w else throw (ENOENT f) w)"

definition chmodSync :: "string \<Rightarrow> world \<Rightarrow> world" where
  "chmodSync f w = (if existsSync f (fs w) then w else throw (ENOENT f) w)"

subsection \<open>httpGetFile\<close>

text \<open>
  The synchronous part: the line on the console, the write stream (which creates the
  file, empty), the warning when certificates are ignored, and the request. Of the
  options of the request only the URL is kept. The four handlers follow.
\<close>

definition httpGetFile :: "config \<Rightarrow> string \<Rightarrow> string \<Rightarrow> callback option \<Rightarrow> world \<Rightarrow> world" where
  "httpGetFile cfg fUrl fName cb w =
     (let w1 = console_log (''downloading '' @ fUrl @ ''...'') w;
          w2 = w1\<lparr>fs := writeFile fName [] (fs w1)\<rparr>;
          w3 = (if ignore_ssl (args cfg) then console_log ''Ignoring SSL certificate'' w2
                else w2)
      in w3\<lparr> requests := requests w3 @ [fUrl],
              pending := pending w3 @
                [\<lparr>fileUrl = fUrl, fileName = fName, fetch_callback = cb, linked = True\<rparr>] \<rparr>)"

definition on_response :: "fetch \<Rightarrow> nat \<Rightarrow> world \<Rightarrow> world" where
  "on_response p statusCode w =
     (if statusCode \<noteq> 200 then
        (let w1 = unlink (fileName p) w
         in console_error (''Error: Got code '' @ string_of_nat statusCode @ '' from '' @
              fileUrl p) w1)
      else w)"

definition on_error :: "fetch \<Rightarrow> string \<Rightarrow> world \<Rightarrow> world" where
  "on_error p e w =
     (let w1 = unlink (fileName p) w
      in console_error (''Error: Got error '' @ e @ '' from '' @ fileUrl p) w1)"

definition on_data :: "nat \<Rightarrow> string \<Rightarrow> world \<Rightarrow> world" where
  "on_data i chunk w =
     (let p = pending w ! i
      in if linked p then w\<lparr>fs := appendFile (fileName p) chunk (fs w)\<rparr> else w)"

subsection \<open>The two installers of the update command\<close>

text \<open>
  \<^verbatim>\<open>new AdmZip(filename)\<close> throws when the file does not exist or is not an archive.
  The chromedriver archive is extracted with the overwrite flag, the IEDriver archive
  without it.
\<close>

definition install_chrome :: "config \<Rightarrow> string \<Rightarrow> world \<Rightarrow> world" where
  "install_chrome cfg fName w =
     (case readFile fName (fs w) of
        None \<Rightarrow> throw (INVALID_FILENAME fName) w
      | Some bytes \<Rightarrow>
          (case unzip cfg bytes of
             None \<Rightarrow> throw (INVALID_FORMAT fName) w
           | Some entries \<Rightarrow>
               (let w1 = w\<lparr>fs := extractAllTo entries True (fs w)\<rparr>
                in if os_type (hst cfg) \<noteq> ''Windows_NT'' then chmodSync ''chromedriver'' w1
                   else w1)))"

definition install_ie :: "config \<Rightarrow> string \<Rightarrow> world \<Rightarrow> world" where
  "install_ie cfg fName w =
     (case readFile fName (fs w) of
        None \<Rightarrow> throw (INVALID_FILENAME fName) w
      | Some bytes \<Rightarrow>
          (case unzip cfg bytes of
             None \<Rightarrow> throw (INVALID_FORMAT fName) w
           | Some entries \<Rightarrow> w\<lparr>fs := extractAllTo entries False (fs w)\<rparr>))"

fun opt_callback :: "config \<Rightarrow> installer option \<Rightarrow> string \<Rightarrow> world \<Rightarrow> world" where
  "opt_callback cfg None downloaded w = w"
| "opt_callback cfg (Some ChromeInstall) downloaded w = install_chrome cfg downloaded w"
| "opt_callback cfg (Some IeInstall) downloaded w = install_ie cfg downloaded w"

fun call_callback :: "config \<Rightarrow> callback option \<Rightarrow> string \<Rightarrow> world \<Rightarrow> world" where
  "call_callback cfg None downloaded w = w"
| "call_callback cfg (Some (Wrapper cb)) downloaded w = opt_callback cfg cb downloaded w"

text \<open>
  The handler of \<^verbatim>\<open>end\<close>: the stream is closed, the line is printed and the callback
  is called with the path of the file, whatever came before. The path is the output
  directory joined with the name; the installers look the name up in the directory.
\<close>

definition on_end :: "config \<Rightarrow> fetch \<Rightarrow> world \<Rightarrow> world" where
  "on_end cfg p w =
     (let w1 = console_log (fileName p @ '' downloaded to '' @
                 path_join (out_dir (args cfg)) (fileName p)) w
      in call_callback cfg (fetch_callback p) (fileName p) w1)"

subsection \<open>downloadIfNew\<close>

text \<open>The loop over the listing: every name that contains the prefix is unlinked.\<close>

fun unlink_matching :: "string \<Rightarrow> string list \<Rightarrow> world \<Rightarrow> world" where
  "unlink_matching pre [] w = w"
| "unlink_matching pre (file # files) w =
     (if indexOf file pre \<noteq> - 1 then
        (let w1 = unlinkSync file w
         in if status w1 = Alive then unlink_matching pre files w1 else w1)
      else unlink_matching pre files w)"

definition downloadIfNew :: "config \<Rightarrow> binary \<Rightarrow> string list \<Rightarrow> installer option \<Rightarrow> world \<Rightarrow> world" where
  "downloadIfNew cfg bin existingFiles cb w =
     (if \<not> exists bin then
        (let w1 = unlink_matching (prefix bin) existingFiles w
         in if status w1 \<noteq> Alive then w1
            else
              (let w2 = console_log (''Updating '' @ name bin) w1
               in if falsy (url bin) then
                    console_error (name bin @ '' is not available for your system.'') w2
                  else httpGetFile cfg (the (url bin)) (filename bin) (Some (Wrapper cb)) w2))
      else console_log (name bin @ '' is up to date.'') w)"

subsection \<open>The scan before any command\<close>

definition scan :: "dir \<Rightarrow> binary \<Rightarrow> binary" where
  "scan d bin =
     bin\<lparr> exists := existsSync (filename bin) d,
          outOfDateExists :=
            list_ex (\<lambda>file. indexOf file (prefix bin) \<noteq> - 1 \<and> file \<noteq> filename bin)
              (readdirSync d) \<rparr>"

definition scan_all :: "dir \<Rightarrow> binaries \<Rightarrow> binaries" where
  "scan_all d bins =
     \<lparr> standalone = scan d (standalone bins), chrome = scan d (chrome bins),
       ie = scan d (ie bins) \<rparr>"

subsection \<open>The commands\<close>

definition executableName :: "host \<Rightarrow> string \<Rightarrow> string" where
  "executableName h file = (if os_type h = ''Windows_NT'' then file @ ''.exe'' else file)"

definition spawnCommand :: "host \<Rightarrow> string \<Rightarrow> string list \<Rightarrow> world \<Rightarrow> world" where
  "spawnCommand h cmd as w =
     (let win32 = (platform h = ''win32'');
          winCommand = (if win32 then ''cmd'' else cmd);
          finalArgs = (if win32 then [''/c''] @ [cmd] @ as else as)
      in w\<lparr>spawned := spawned w @ [(winCommand, finalArgs)]\<rparr>)"

text \<open>
  \<^verbatim>\<open>start\<close>: \<^verbatim>\<open>process.exit(1)\<close> ends the script, so nothing below it runs when the
  standalone jar is missing. Otherwise the child is spawned and the three handlers
  (exit of the child, data on standard input, the interrupt signal) are registered.
  No listener is registered for the \<^verbatim>\<open>error\<close> event of the child: a spawn that
  fails leaves the process id undefined, and its error arrives later as a failure that
  nobody handles (see \<open>on_failure\<close>).
\<close>

definition start :: "config \<Rightarrow> binaries \<Rightarrow> world \<Rightarrow> world" where
  "start cfg bins w =
     (if \<not> exists (standalone bins) then
        process_exit 1
          (console_error (''Selenium Standalone is not present. Install with '' @
             ''webdriver-manager update --standalone'') w)
      else
        (let out = out_dir (args cfg);
             a1 = [''-jar'', path_join out (filename (standalone bins))];
             a2 = (case seleniumPort (args cfg) of
                     None \<Rightarrow> a1
                   | Some port \<Rightarrow>
                       if port = 0 then a1 else a1 @ [''-port'', string_of_nat port]);
             a3 = (if exists (chrome bins) then
                     a2 @ [''-Dwebdriver.chrome.driver='' @
                            path_join out (executableName (hst cfg) ''chromedriver'')]
                   else a2);
             a4 = (if exists (ie bins) then
                     a3 @ [''-Dwebdriver.ie.driver='' @
                            path_join out (executableName (hst cfg) ''IEDriverServer'')]
                   else a3);
             w1 = spawnCommand (hst cfg) ''java'' a4 w;
             w2 = console_log (''seleniumProcess.pid: '' @
                    (case child_pid cfg of
                       Some n \<Rightarrow> string_of_nat n
                     | None \<Rightarrow> ''undefined'')) w1
         in w2\<lparr>supervising := True\<rparr>))"

definition report :: "binary \<Rightarrow> world \<Rightarrow> world" where
  "report bin w =
     (if exists bin then console_log (name bin @ '' is up to date'') w
      else if outOfDateExists bin then
        console_log (''**'' @ name bin @ '' needs to be updated'') w
      else console_log (name bin @ '' is not present'') w)"

definition status_command :: "binaries \<Rightarrow> world \<Rightarrow> world" where
  "status_command bins w = report (ie bins) (report (chrome bins) (report (standalone bins) w))"

text \<open>
  \<^verbatim>\<open>update\<close>: the three calls in the order of the source. An exception thrown by one
  call ends the script, so the calls after it do not run.
\<close>

definition update :: "config \<Rightarrow> binaries \<Rightarrow> string list \<Rightarrow> world \<Rightarrow> world" where
  "update cfg bins existingFiles w =
     (let w1 = (if argv_standalone (args cfg) then
                  downloadIfNew cfg (standalone bins) existingFiles None w
                else w);
          w2 = (if status w1 = Alive \<and> argv_chrome (args cfg) then
                  downloadIfNew cfg (chrome bins) existingFiles (Some ChromeInstall) w1
                else w1);
          w3 = (if status w2 = Alive \<and> argv_ie (args cfg) then
                  downloadIfNew cfg (ie bins) existingFiles (Some IeInstall) w2
                else w2)
      in w3)"

text \<open>
  The synchronous run of the script on an output directory: the listing is read once,
  the three binaries are scanned, and the command is dispatched. The command line holds
  exactly one command (the check of the options rejects any other), and the output
  directory exists when the listing is read (the script creates it when it is missing).
\<close>

definition main :: "config \<Rightarrow> dir \<Rightarrow> world" where
  "main cfg d =
     (let existingFiles = readdirSync d;
          bins = scan_all d (the_binaries (webdriverVersions cfg) (hst cfg));
          w = init d
      in if command (args cfg) = ''start'' then start cfg bins w
         else if command (args cfg) = ''status'' then status_command bins w
         else if command (args cfg) = ''update'' then update cfg bins existingFiles w
         else console_error (help_text cfg) (console_error ''Invalid command'' w))"

subsection \<open>The event loop\<close>

text \<open>
  The events the script has handlers for: the four events of a request (numbered by
  the position of its fetch), the exit of the child with its code (no code when a
  signal killed it), data on standard input, and the interrupt signal. An event is
  delivered only while the script runs. An interrupt without a handler kills the script.
\<close>

datatype net_event = Response nat | NetError string | Data string | End

datatype event =
    Net nat net_event
  | ChildExit "nat option"
  | StdinData string
  | SIGINT

definition on_net :: "config \<Rightarrow> nat \<Rightarrow> net_event \<Rightarrow> world \<Rightarrow> world" where
  "on_net cfg i ev w =
     (case ev of
        Response statusCode \<Rightarrow> on_response (pending w ! i) statusCode w
      | NetError e \<Rightarrow> on_error (pending w ! i) e w
      | Data chunk \<Rightarrow> on_data i chunk w
      | End \<Rightarrow> on_end cfg (pending w ! i) w)"

definition on_child_exit :: "nat option \<Rightarrow> world \<Rightarrow> world" where
  "on_child_exit code w =
     (case code of
        Some c \<Rightarrow>
          process_exit c
            (console_log (''Selenium Standalone has exited with code '' @ string_of_nat c) w)
      | None \<Rightarrow>
          process_exit 0
            (console_log (''Selenium Standalone has exited with code null'') w))"

text \<open>
  The handler of data on standard input sends the shutdown request with
  \<^verbatim>\<open>http.get\<close> and registers no listener on it: the handler itself cannot fail, and
  an error of the request arrives later as a failure that nobody handles.
\<close>

definition shutdown_url :: string where
  "shutdown_url = ''http://localhost:4444/selenium-server/driver/?cmd=shutDownSeleniumServer''"

definition on_stdin_data :: "string \<Rightarrow> world \<Rightarrow> world" where
  "on_stdin_data chunk w =
     (let w1 = console_log ''Attempting to shut down selenium nicely'' w
      in w1\<lparr>requests := requests w1 @ [shutdown_url]\<rparr>)"

definition on_sigint :: "world \<Rightarrow> world" where
  "on_sigint w = console_log ''Staying alive until the Selenium Standalone process exits'' w"

definition deliver :: "config \<Rightarrow> event \<Rightarrow> world \<Rightarrow> world" where
  "deliver cfg e w =
     (if status w \<noteq> Alive then w
      else case e of
        Net i ev \<Rightarrow> if i < length (pending w) then on_net cfg i ev w else w
      | ChildExit code \<Rightarrow> if supervising w then on_child_exit code w else w
      | StdinData chunk \<Rightarrow> if supervising w then on_stdin_data chunk w else w
      | SIGINT \<Rightarrow> if supervising w then on_sigint w else w\<lparr>status := Killed\<rparr>)"

fun run :: "config \<Rightarrow> event list \<Rightarrow> world \<Rightarrow> world" where
  "run cfg [] w = w"
| "run cfg (e # es) w = run cfg es (deliver cfg e w)"

subsection \<open>Errors that nobody handles\<close>

text \<open>
  Two emitters of the script have no listener for their \<^verbatim>\<open>error\<close> event: the
  shutdown request of \<^verbatim>\<open>http.get\<close> (an error of the connection, for instance when
  nothing listens on port 4444) and the child process (a spawn that failed). Node throws
  an \<^verbatim>\<open>error\<close> event without a listener, and the exception ends the script. The
  error of a shutdown request can arrive once such a request was sent, the error of the
  spawn once the child was spawned without getting a process id. A step of the event loop
  is an event with a handler or one of these failures.
\<close>

datatype failure = ShutdownError string | SpawnError string

definition on_failure :: "config \<Rightarrow> failure \<Rightarrow> world \<Rightarrow> world" where
  "on_failure cfg f w =
     (case f of
        ShutdownError e \<Rightarrow>
          if shutdown_url \<in> set (requests w) then throw (UNHANDLED_ERROR e) w else w
      | SpawnError e \<Rightarrow>
          if spawned w \<noteq> [] \<and> child_pid cfg = None then throw (UNHANDLED_ERROR e) w
          else w)"

datatype step = Handled event | Unhandled failure

definition deliver_step :: "config \<Rightarrow> step \<Rightarrow> world \<Rightarrow> world" where
  "deliver_step cfg s w =
     (case s of
        Handled e \<Rightarrow> deliver cfg e w
      | Unhandled f \<Rightarrow> if status w \<noteq> Alive then w else on_failure cfg f w)"

fun run_steps :: "config \<Rightarrow> step list \<Rightarrow> world \<Rightarrow> world" where
  "run_steps cfg [] w = w"
| "run_steps cfg (s # ss) w = run_steps cfg ss (deliver_step cfg s w)"

subsection \<open>Invariant of the supervisor and example configurations\<close>

text \<open>
  While the server runs under the supervisor, the script is alive, the three handlers
  of \<^verbatim>\<open>start\<close> are registered and no fetch is under way.
\<close>

definition sup_inv :: "world \<Rightarrow> bool" where
  "sup_inv w = (status w = Alive \<and> supervising w \<and> pending w = [])"

text \<open>Concrete configurations, hosts and archives, for running the model.\<close>

definition example_versions :: versions where
  "example_versions = \<lparr>selenium = ''2.42.2'', chromedriver = ''2.10'', iedriver = ''2.42.0''\<rparr>"

definition linux_host :: host where
  "linux_host = \<lparr>os_type = ''Linux'', os_arch = ''x64'', platform = ''linux''\<rparr>"

definition windows_host :: host where
  "windows_host = \<lparr>os_type = ''Windows_NT'', os_arch = ''x64'', platform = ''win32''\<rparr>"

definition example_unzip :: "string \<Rightarrow> (string \<times> string) list option" where
  "example_unzip bytes =
     (if bytes = ''PK-chrome'' then Some [(''chromedriver'', ''ELF-new'')]
      else if bytes = ''PK-ie'' then Some [(''IEDriverServer.exe'', ''MZ-new'')]
      else if bytes = ''PK-ie-licensed'' then
        Some [(''IEDriverServer.exe'', ''MZ-new''), (''license.txt'', ''new terms'')]
      else None)"

definition example_cfg :: "string \<Rightarrow> host \<Rightarrow> bool \<Rightarrow> bool \<Rightarrow> bool \<Rightarrow> config" where
  "example_cfg cmd h sa ch i =
     \<lparr> webdriverVersions = example_versions, hst = h,
       args = \<lparr> command = cmd, out_dir = ''selenium'', seleniumPort = None,
                ignore_ssl = False, argv_standalone = sa, argv_chrome = ch, argv_ie = i \<rparr>,
       unzip = example_unzip, child_pid = Some 4711,
       help_text = ''Usage: webdriver-manager <command>'' \<rparr>"

text \<open>
  The descriptors a run of \<^verbatim>\<open>update\<close> works on, in the order of the source, and
  the worlds in which no handler of the script is registered.
\<close>

definition selected :: "config \<Rightarrow> binary list" where
  "selected cfg =
     (let bins = the_binaries (webdriverVersions cfg) (hst cfg)
      in (if argv_standalone (args cfg) then [standalone bins] else []) @
         (if argv_chrome (args cfg) then [chrome bins] else []) @
         (if argv_ie (args cfg) then [ie bins] else []))"

definition quiet :: "world \<Rightarrow> bool" where
  "quiet w = (pending w = [] \<and> \<not> supervising w)"

text \<open>
  The events of a request that succeeds: a response with status 200, the chunks of the
  body, the end.
\<close>

definition ok_events :: "nat \<Rightarrow> string list \<Rightarrow> event list" where
  "ok_events i chunks = Net i (Response 200) # map (\<lambda>c. Net i (Data c)) chunks @ [Net i End]"

text \<open>The same command line with the IEDriver not selected.\<close>

definition without_ie :: "config \<Rightarrow> config" where
  "without_ie cfg = cfg\<lparr>args := (args cfg)\<lparr>argv_ie := False\<rparr>\<rparr>"

section \<open>Properties\<close>

subsection \<open>The event loop\<close>

lemma run_not_alive: "status w \<noteq> Alive \<Longrightarrow> run cfg evs w = w"
  by (induction evs) (simp_all add: deliver_def)

lemma run_append: "run cfg (xs @ ys) w = run cfg ys (run cfg xs w)"
  by (induction xs arbitrary: w) simp_all

lemmas example_defs = example_cfg_def example_versions_def linux_host_def windows_host_def
  the_binaries_def existsSync_def

subsection \<open>The scan\<close>

lemma scan_exists: "exists (scan d b) = existsSync (filename b) d"
  by (simp add: scan_def)

lemma scan_filename: "filename (scan d b) = filename b"
  by (simp add: scan_def)

subsection \<open>The start command and the supervisor\<close>

lemma main_start:
  "command (args cfg) = ''start'' \<Longrightarrow>
   main cfg d = start cfg (scan_all d (the_binaries (webdriverVersions cfg) (hst cfg))) (init d)"
  by (simp add: main_def Let_def)

lemma start_absent:
  assumes "\<not> exists (standalone bins)"
  shows "start cfg bins w = process_exit 1 (console_error
     (''Selenium Standalone is not present. Install with webdriver-manager update --standalone'') w)"
  using assms by (simp add: start_def)

lemma start_present:
  assumes "exists (standalone bins)" "status w = Alive" "pending w = []"
  shows "sup_inv (start cfg bins w)"
    and "length (spawned (start cfg bins w)) = Suc (length (spawned w))"
  using assms by (simp_all add: start_def sup_inv_def Let_def spawnCommand_def console_log_def)

lemma main_start_present:
  assumes "command (args cfg) = ''start''"
    and "existsSync (filename (standalone (the_binaries (webdriverVersions cfg) (hst cfg)))) d"
  shows "sup_inv (main cfg d)"
proof -
  let ?bins = "scan_all d (the_binaries (webdriverVersions cfg) (hst cfg))"
  have ex: "exists (standalone ?bins)"
    using assms(2) by (simp add: scan_all_def scan_exists)
  show ?thesis
    using start_present(1) [OF ex, of "init d" cfg] assms(1)
    by (simp add: main_start init_def)
qed

lemma deliver_sup_inv:
  assumes "sup_inv w" "\<forall>c. e \<noteq> ChildExit c"
  shows "sup_inv (deliver cfg e w)"
  using assms
  by (cases e) (simp_all add: deliver_def sup_inv_def on_stdin_data_def on_sigint_def
      console_log_def Let_def)

lemma run_sup_inv:
  assumes "sup_inv w" "\<forall>e \<in> set evs. \<forall>c. e \<noteq> ChildExit c"
  shows "sup_inv (run cfg evs w)"
  using assms by (induction evs arbitrary: w) (simp_all add: deliver_sup_inv)

lemma run_keeps_supervising:
  "supervising w \<and> pending w = [] \<Longrightarrow> supervising (run cfg evs w)"
proof (induction evs arbitrary: w)
  case Nil
  then show ?case by simp
next
  case (Cons e es)
  have "supervising (deliver cfg e w) \<and> pending (deliver cfg e w) = []"
    using Cons.prems
    by (cases e) (simp_all add: deliver_def on_child_exit_def on_stdin_data_def on_sigint_def
        console_log_def process_exit_def Let_def split: option.splits)
  then show ?case using Cons.IH by simp
qed

text \<open>
  Claim C3. When the child exits with code \<open>c\<close>, the supervisor prints the code and
  exits with exactly \<open>c\<close>: from a start with the standalone jar present, after any
  events that are not the exit of the child, the exit of the child with code \<open>c\<close>
  leaves the script exited with status \<open>c\<close>, the line with the code last on the
  console, whatever is delivered afterwards.
\<close>

theorem C3_child_exit_code_propagated:
  assumes "command (args cfg) = ''start''"
    and "existsSync (filename (standalone (the_binaries (webdriverVersions cfg) (hst cfg)))) d"
    and "\<forall>e \<in> set evs. \<forall>c'. e \<noteq> ChildExit c'"
  shows "status (run cfg (evs @ ChildExit (Some c) # evs') (main cfg d)) = Exited c
    \<and> last (console (run cfg (evs @ ChildExit (Some c) # evs') (main cfg d))) =
        (Out, ''Selenium Standalone has exited with code '' @ string_of_nat c)"
proof -
  have "sup_inv (main cfg d)"
    using assms(1,2) by (rule main_start_present)
  then have inv: "sup_inv (run cfg evs (main cfg d))"
    using assms(3) by (rule run_sup_inv)
  let ?w = "run cfg evs (main cfg d)"
  let ?w' = "deliver cfg (ChildExit (Some c)) ?w"
  have st: "status ?w' = Exited c"
    and co: "console ?w' = console ?w @
      [(Out, ''Selenium Standalone has exited with code '' @ string_of_nat c)]"
    using inv
    by (simp_all add: sup_inv_def deliver_def on_child_exit_def process_exit_def console_log_def)
  have "run cfg (evs @ ChildExit (Some c) # evs') (main cfg d) = run cfg evs' ?w'"
    by (simp add: run_append)
  also have "\<dots> = ?w'" using st by (simp add: run_not_alive)
  finally show ?thesis using st co by simp
qed

theorem C3_child_exit_code_propagated_witness:
  "command (args (example_cfg ''start'' linux_host True True False)) = ''start''
   \<and> existsSync (filename (standalone (the_binaries
         (webdriverVersions (example_cfg ''start'' linux_host True True False))
         (hst (example_cfg ''start'' linux_host True True False)))))
       [(''selenium-server-standalone-2.42.2.jar'', ''jar'')]
   \<and> status (run (example_cfg ''start'' linux_host True True False)
         ([SIGINT, StdinData ''q''] @ ChildExit (Some 3) # [SIGINT])
         (main (example_cfg ''start'' linux_host True True False)
            [(''selenium-server-standalone-2.42.2.jar'', ''jar'')])) = Exited 3"
proof -
  let ?cfg = "example_cfg ''start'' linux_host True True False"
  let ?d = "[(''selenium-server-standalone-2.42.2.jar'', ''jar'')]"
  have h1: "command (args ?cfg) = ''start''" by (simp add: example_cfg_def)
  have h2: "existsSync (filename (standalone (the_binaries (webdriverVersions ?cfg) (hst ?cfg)))) ?d"
    by (simp add: example_defs)
  have h3: "\<forall>e \<in> set [SIGINT, StdinData ''q'']. \<forall>c'. e \<noteq> ChildExit c'" by simp
  from C3_child_exit_code_propagated [OF h1 h2 h3, of 3 "[SIGINT]"] h1 h2 h3
  show ?thesis by blast
qed

text \<open>
  Claim C4. A start with the standalone jar absent from the output directory prints
  the error, exits with status 1 and spawns nothing: the list of spawned processes is
  empty when the synchronous part ends, and no event delivered later changes the world.
\<close>

theorem C4_start_without_server_never_spawns:
  assumes "command (args cfg) = ''start''"
    and "\<not> existsSync (filename (standalone (the_binaries (webdriverVersions cfg) (hst cfg)))) d"
  shows "status (main cfg d) = Exited 1
    \<and> console (main cfg d) = [(Err,
         ''Selenium Standalone is not present. Install with webdriver-manager update --standalone'')]
    \<and> spawned (main cfg d) = []
    \<and> run cfg evs (main cfg d) = main cfg d"
proof -
  let ?bins = "scan_all d (the_binaries (webdriverVersions cfg) (hst cfg))"
  have "\<not> exists (standalone ?bins)"
    using assms(2) by (simp add: scan_all_def scan_exists)
  then have m: "main cfg d = process_exit 1 (console_error
     (''Selenium Standalone is not present. Install with webdriver-manager update --standalone'')
     (init d))"
    using assms(1) by (simp add: main_start start_absent)
  have st: "status (main cfg d) = Exited 1"
    by (simp add: m process_exit_def)
  then have "run cfg evs (main cfg d) = main cfg d"
    by (simp add: run_not_alive)
  moreover have "spawned (main cfg d) = []"
    by (simp add: m process_exit_def console_error_def init_def)
  moreover have "console (main cfg d) = [(Err,
         ''Selenium Standalone is not present. Install with webdriver-manager update --standalone'')]"
    by (simp add: m process_exit_def console_error_def init_def)
  ultimately show ?thesis using st by simp
qed

theorem C4_start_without_server_never_spawns_witness:
  "command (args (example_cfg ''start'' linux_host True True False)) = ''start''
   \<and> \<not> existsSync (filename (standalone (the_binaries
         (webdriverVersions (example_cfg ''start'' linux_host True True False))
         (hst (example_cfg ''start'' linux_host True True False)))))
       [(''selenium-server-standalone-2.41.0.jar'', ''jar'')]
   \<and> status (main (example_cfg ''start'' linux_host True True False)
         [(''selenium-server-standalone-2.41.0.jar'', ''jar'')]) = Exited 1
   \<and> spawned (run (example_cfg ''start'' linux_host True True False)
         [StdinData ''q'', ChildExit (Some 0)]
         (main (example_cfg ''start'' linux_host True True False)
            [(''selenium-server-standalone-2.41.0.jar'', ''jar'')])) = []"
proof -
  let ?cfg = "example_cfg ''start'' linux_host True True False"
  let ?d = "[(''selenium-server-standalone-2.41.0.jar'', ''jar'')]"
  have h1: "command (args ?cfg) = ''start''" by (simp add: example_cfg_def)
  have h2: "\<not> existsSync (filename (standalone (the_binaries (webdriverVersions ?cfg) (hst ?cfg)))) ?d"
    by (simp add: example_defs)
  from C4_start_without_server_never_spawns [OF h1 h2, of "[StdinData ''q'', ChildExit (Some 0)]"] h1 h2
  show ?thesis by metis
qed

text \<open>
  Under the supervisor the handler of the interrupt signal only appends its line to the
  console: the status stays alive and nothing else changes.
\<close>

lemma sigint_only_logs:
  assumes "command (args cfg) = ''start''"
    and "existsSync (filename (standalone (the_binaries (webdriverVersions cfg) (hst cfg)))) d"
    and "status (run cfg evs (main cfg d)) = Alive"
  shows "deliver cfg SIGINT (run cfg evs (main cfg d)) =
           (run cfg evs (main cfg d))\<lparr>console := console (run cfg evs (main cfg d)) @
              [(Out, ''Staying alive until the Selenium Standalone process exits'')]\<rparr>"
proof -
  have "sup_inv (main cfg d)"
    using assms(1,2) by (rule main_start_present)
  then have "supervising (run cfg evs (main cfg d))"
    by (simp add: sup_inv_def run_keeps_supervising)
  then show ?thesis using assms(3) by (simp add: deliver_def on_sigint_def console_log_def)
qed


lemma main_start_spawned:
  assumes "command (args cfg) = ''start''"
    and "existsSync (filename (standalone (the_binaries (webdriverVersions cfg) (hst cfg)))) d"
  shows "spawned (main cfg d) \<noteq> []"
proof -
  let ?bins = "scan_all d (the_binaries (webdriverVersions cfg) (hst cfg))"
  have ex: "exists (standalone ?bins)"
    using assms(2) by (simp add: scan_all_def scan_exists)
  from start_present(2) [OF ex, of "init d" cfg]
  have "length (spawned (main cfg d)) = Suc 0"
    using assms(1) by (simp add: main_start init_def)
  then show ?thesis by auto
qed


text \<open>
  Claim C9, at an input where the script departs from it. On an interrupt signal the
  handler only prints its line and the supervisor stays alive, and the supervisor is to
  end only through the exit of the child. It does not: a chunk on standard input sends
  the shutdown request, for which no listener of errors is registered (the requests of
  \<^verbatim>\<open>httpGetFile\<close> have one), and when the connection to port 4444 is refused the
  error ends the script, after an interrupt as well, with the child still running. The
  error of a spawn that failed does the same. No exit of the child is among the steps.
\<close>

theorem C9_unhandled_error_ends_supervisor:
  "status (main (example_cfg ''start'' linux_host True True False)
      [(''selenium-server-standalone-2.42.2.jar'', ''jar'')]) = Alive
   \<and> status (run_steps (example_cfg ''start'' linux_host True True False)
        [Handled SIGINT, Handled (StdinData ''q'')]
        (main (example_cfg ''start'' linux_host True True False)
          [(''selenium-server-standalone-2.42.2.jar'', ''jar'')])) = Alive
   \<and> status (run_steps (example_cfg ''start'' linux_host True True False)
        [Handled SIGINT, Handled (StdinData ''q''),
         Unhandled (ShutdownError ''connect ECONNREFUSED'')]
        (main (example_cfg ''start'' linux_host True True False)
          [(''selenium-server-standalone-2.42.2.jar'', ''jar'')])) =
       Uncaught (UNHANDLED_ERROR ''connect ECONNREFUSED'')
   \<and> status (run_steps ((example_cfg ''start'' linux_host True True False)\<lparr>child_pid := None\<rparr>)
        [Unhandled (SpawnError ''spawn ENOENT'')]
        (main ((example_cfg ''start'' linux_host True True False)\<lparr>child_pid := None\<rparr>)
          [(''selenium-server-standalone-2.42.2.jar'', ''jar'')])) =
       Uncaught (UNHANDLED_ERROR ''spawn ENOENT'')"
proof -
  let ?cfg = "example_cfg ''start'' linux_host True True False"
  let ?cfg' = "?cfg\<lparr>child_pid := None\<rparr>"
  let ?d = "[(''selenium-server-standalone-2.42.2.jar'', ''jar'')]"
  have h1: "command (args ?cfg) = ''start''" "command (args ?cfg') = ''start''"
    by (simp_all add: example_cfg_def)
  have h2: "existsSync (filename (standalone (the_binaries (webdriverVersions ?cfg) (hst ?cfg)))) ?d"
    "existsSync (filename (standalone (the_binaries (webdriverVersions ?cfg') (hst ?cfg')))) ?d"
    by (simp_all add: example_defs)
  have inv: "status (main ?cfg ?d) = Alive" "supervising (main ?cfg ?d)"
    using main_start_present [OF h1(1) h2(1)] by (simp_all add: sup_inv_def)
  have inv': "status (main ?cfg' ?d) = Alive" "spawned (main ?cfg' ?d) \<noteq> []"
    using main_start_present [OF h1(2) h2(2)] main_start_spawned [OF h1(2) h2(2)]
    by (simp_all add: sup_inv_def)
  have no_pid: "child_pid ?cfg' = None" by simp
  have a: "status (run_steps ?cfg [Handled SIGINT, Handled (StdinData ''q'')] (main ?cfg ?d)) = Alive"
    using inv
    by (simp add: deliver_step_def deliver_def on_sigint_def on_stdin_data_def Let_def
        console_log_def)
  have b: "status (run_steps ?cfg [Handled SIGINT, Handled (StdinData ''q''),
         Unhandled (ShutdownError ''connect ECONNREFUSED'')] (main ?cfg ?d)) =
       Uncaught (UNHANDLED_ERROR ''connect ECONNREFUSED'')"
    using inv
    by (simp add: deliver_step_def deliver_def on_sigint_def on_stdin_data_def on_failure_def
        Let_def console_log_def throw_def)
  have c: "status (run_steps ?cfg' [Unhandled (SpawnError ''spawn ENOENT'')] (main ?cfg' ?d)) =
       Uncaught (UNHANDLED_ERROR ''spawn ENOENT'')"
    using inv' no_pid by (simp add: deliver_step_def on_failure_def throw_def)
  from inv(1) a b c show ?thesis by blast
qed


subsection \<open>The output directory\<close>

lemma readdirSync_set: "(f \<in> set (readdirSync d)) = existsSync f d"
  by (simp add: readdirSync_def existsSync_def)

lemma existsSync_remove_entry [simp]:
  "existsSync g (remove_entry f d) = (g \<noteq> f \<and> existsSync g d)"
  by (auto simp: existsSync_def remove_entry_def)

lemma existsSync_writeFile [simp]:
  "existsSync g (writeFile f c d) = (g = f \<or> existsSync g d)"
  by (force simp: writeFile_def existsSync_def remove_entry_def image_iff)

lemma existsSync_appendFile [simp]:
  "existsSync g (appendFile f c d) = existsSync g d"
  by (force simp: existsSync_def appendFile_def image_iff)

lemma existsSync_extractAllTo [simp]:
  "existsSync g (extractAllTo es ow d) = (g \<in> fst ` set es \<or> existsSync g d)"
  by (induction es ow d rule: extractAllTo.induct) auto

lemma readFile_None: "(readFile f d = None) = (\<not> existsSync f d)"
  by (simp add: readFile_def existsSync_def map_of_eq_None_iff)

lemma downloadIfNew_present:
  "exists bin \<Longrightarrow> downloadIfNew cfg bin files cb w = console_log (name bin @ '' is up to date.'') w"
  by (simp add: downloadIfNew_def)

lemma deliver_quiet:
  assumes "quiet w"
  shows "deliver cfg e w = w \<or> deliver cfg e w = w\<lparr>status := Killed\<rparr>"
  using assms by (cases e) (simp_all add: deliver_def quiet_def)

lemma run_quiet:
  assumes "quiet w"
  shows "fs (run cfg evs w) = fs w \<and> requests (run cfg evs w) = requests w
    \<and> pending (run cfg evs w) = [] \<and> console (run cfg evs w) = console w"
  using assms
proof (induction evs arbitrary: w)
  case Nil
  then show ?case by (simp add: quiet_def)
next
  case (Cons e es)
  from deliver_quiet [OF Cons.prems, of cfg e]
  show ?case
  proof
    assume "deliver cfg e w = w"
    then show ?thesis using Cons by simp
  next
    assume k: "deliver cfg e w = w\<lparr>status := Killed\<rparr>"
    have "quiet (w\<lparr>status := Killed\<rparr>)" using Cons.prems by (simp add: quiet_def)
    from Cons.IH [OF this] show ?thesis using k by simp
  qed
qed

lemma main_update:
  "command (args cfg) = ''update'' \<Longrightarrow>
   main cfg d = update cfg (scan_all d (the_binaries (webdriverVersions cfg) (hst cfg)))
     (readdirSync d) (init d)"
  by (simp add: main_def Let_def)

lemma update_all_present:
  assumes "argv_standalone (args cfg) \<longrightarrow> exists (standalone bins)"
    and "argv_chrome (args cfg) \<longrightarrow> exists (chrome bins)"
    and "argv_ie (args cfg) \<longrightarrow> exists (ie bins)"
  shows "fs (update cfg bins files w) = fs w \<and> requests (update cfg bins files w) = requests w
    \<and> pending (update cfg bins files w) = pending w
    \<and> supervising (update cfg bins files w) = supervising w"
  using assms by (simp add: update_def Let_def downloadIfNew_present console_log_def)


subsection \<open>Fields of the world after the basic operations\<close>

lemmas model_defs = main_def update_def downloadIfNew_def httpGetFile_def scan_all_def scan_def
  the_binaries_def init_def console_log_def console_error_def readdirSync_def existsSync_def
  falsy_def chrome_url_def ie_url_def standalone_url_def unlinkSync_def rm_def throw_def
  writeFile_def remove_entry_def indexOf_def shortVersion_def lastIndexOf_def slice_def
  example_cfg_def example_versions_def linux_host_def windows_host_def Let_def

lemma console_log_fields [simp]:
  "fs (console_log s w) = fs w" "requests (console_log s w) = requests w"
  "pending (console_log s w) = pending w" "spawned (console_log s w) = spawned w"
  "supervising (console_log s w) = supervising w" "status (console_log s w) = status w"
  "console (console_log s w) = console w @ [(Out, s)]"
  by (simp_all add: console_log_def)

lemma console_error_fields [simp]:
  "fs (console_error s w) = fs w" "requests (console_error s w) = requests w"
  "pending (console_error s w) = pending w" "spawned (console_error s w) = spawned w"
  "supervising (console_error s w) = supervising w" "status (console_error s w) = status w"
  "console (console_error s w) = console w @ [(Err, s)]"
  by (simp_all add: console_error_def)

lemma throw_fields [simp]:
  "fs (throw e w) = fs w" "requests (throw e w) = requests w"
  "pending (throw e w) = pending w" "spawned (throw e w) = spawned w"
  "supervising (throw e w) = supervising w" "status (throw e w) = Uncaught e"
  "console (throw e w) = console w"
  by (simp_all add: throw_def)

lemma rm_fields [simp]:
  "fs (rm f w) = remove_entry f (fs w)" "requests (rm f w) = requests w"
  "length (pending (rm f w)) = length (pending w)" "spawned (rm f w) = spawned w"
  "supervising (rm f w) = supervising w" "status (rm f w) = status w"
  "console (rm f w) = console w"
  by (simp_all add: rm_def)

lemma rm_pending_nth:
  "i < length (pending w) \<Longrightarrow>
   pending (rm f w) ! i =
     (if fileName (pending w ! i) = f then (pending w ! i)\<lparr>linked := False\<rparr> else pending w ! i)"
  by (simp add: rm_def)

lemma readFile_missing: "\<not> existsSync f d \<Longrightarrow> readFile f d = None"
  by (simp add: readFile_None)

lemma call_callback_missing:
  assumes "\<not> existsSync f (fs w)"
  shows "fs (call_callback cfg cb f w) = fs w" "requests (call_callback cfg cb f w) = requests w"
    "pending (call_callback cfg cb f w) = pending w" "console (call_callback cfg cb f w) = console w"
proof -
  have "fs (call_callback cfg cb f w) = fs w \<and> requests (call_callback cfg cb f w) = requests w
    \<and> pending (call_callback cfg cb f w) = pending w \<and> console (call_callback cfg cb f w) = console w"
  proof (cases cb)
    case None
    then show ?thesis by simp
  next
    case (Some c)
    then obtain oc where c: "cb = Some (Wrapper oc)" by (cases c) auto
    show ?thesis
    proof (cases oc)
      case None
      then show ?thesis using c by simp
    next
      case (Some inst)
      then show ?thesis using c assms
        by (cases inst) (simp_all add: install_chrome_def install_ie_def readFile_missing)
    qed
  qed
  then show "fs (call_callback cfg cb f w) = fs w" "requests (call_callback cfg cb f w) = requests w"
    "pending (call_callback cfg cb f w) = pending w" "console (call_callback cfg cb f w) = console w"
    by simp_all
qed

lemma installer_missing_file:
  assumes "\<not> existsSync f (fs w)"
  shows "status (call_callback cfg (Some (Wrapper (Some inst))) f w) = Uncaught (INVALID_FILENAME f)"
  using assms by (cases inst) (simp_all add: install_chrome_def install_ie_def readFile_missing)

lemma deliver_net:
  assumes "status w = Alive" "i < length (pending w)"
  shows "deliver cfg (Net i (Response c)) w = on_response (pending w ! i) c w"
    and "deliver cfg (Net i (NetError e)) w = on_error (pending w ! i) e w"
    and "deliver cfg (Net i (Data chunk)) w = on_data i chunk w"
    and "deliver cfg (Net i End) w = on_end cfg (pending w ! i) w"
  using assms by (simp_all add: deliver_def on_net_def)

lemma example_chrome_update:
  "main (example_cfg ''update'' linux_host False True False) [(''chromedriver_2.9.zip'', ''old'')] =
     \<lparr> fs = [(''chromedriver_2.10.zip'', [])],
       console = [(Out, ''Updating chromedriver''),
         (Out, ''downloading https://chromedriver.storage.googleapis.com/2.10/chromedriver_linux64.zip...'')],
       requests = [''https://chromedriver.storage.googleapis.com/2.10/chromedriver_linux64.zip''],
       pending = [\<lparr>fileUrl = ''https://chromedriver.storage.googleapis.com/2.10/chromedriver_linux64.zip'',
          fileName = ''chromedriver_2.10.zip'', fetch_callback = Some (Wrapper (Some ChromeInstall)),
          linked = True\<rparr>],
       spawned = [], supervising = False, status = Alive \<rparr>"
  by (simp add: model_defs)

lemma deliver_dead_fetch:
  assumes "status w = Alive" "i < length (pending w)"
    and "\<not> existsSync (fileName (pending w ! i)) (fs w)" "\<not> linked (pending w ! i)"
  shows "fs (deliver cfg (Net i ev) w) = fs w \<and> requests (deliver cfg (Net i ev) w) = requests w
    \<and> pending (deliver cfg (Net i ev) w) = pending w"
proof (cases ev)
  case (Response c)
  then show ?thesis using assms
    by (simp add: deliver_net on_response_def unlink_def Let_def)
next
  case (NetError e)
  then show ?thesis using assms
    by (simp add: deliver_net on_error_def unlink_def Let_def)
next
  case (Data chunk)
  then show ?thesis using assms
    by (simp add: deliver_net on_data_def Let_def)
next
  case End
  then show ?thesis using assms
    by (simp add: deliver_net on_end_def Let_def call_callback_missing)
qed

lemma run_dead_fetch:
  assumes "i < length (pending w)"
    and "\<not> existsSync (fileName (pending w ! i)) (fs w)"
    and "status w = Alive \<longrightarrow> \<not> linked (pending w ! i)"
    and "\<forall>e \<in> set evs. \<exists>ev. e = Net i ev"
  shows "fs (run cfg evs w) = fs w \<and> requests (run cfg evs w) = requests w"
  using assms
proof (induction evs arbitrary: w)
  case Nil
  then show ?case by simp
next
  case (Cons e es)
  show ?case
  proof (cases "status w = Alive")
    case False
    then show ?thesis using run_not_alive [of w cfg "e # es"] by simp
  next
    case True
    from Cons.prems(4) obtain ev where e: "e = Net i ev" by auto
    from deliver_dead_fetch [OF True Cons.prems(1,2), of cfg ev] Cons.prems(3) True
    have d: "fs (deliver cfg e w) = fs w" "requests (deliver cfg e w) = requests w"
      "pending (deliver cfg e w) = pending w"
      using e by simp_all
    have "fs (run cfg es (deliver cfg e w)) = fs (deliver cfg e w)
      \<and> requests (run cfg es (deliver cfg e w)) = requests (deliver cfg e w)"
      using Cons.prems d True by (intro Cons.IH) simp_all
    then show ?thesis using d by simp
  qed
qed

lemma linked_after_rm:
  assumes "i < length (pending w)"
  shows "\<not> linked (pending (rm (fileName (pending w ! i)) w) ! i)"
    and "fileName (pending (rm (fileName (pending w ! i)) w) ! i) = fileName (pending w ! i)"
  using assms by (simp_all add: rm_def)


subsection \<open>Reconciliation of a binary that is present\<close>

text \<open>
  Claim C1. When the file with the exact expected name exists in the directory that is
  scanned, \<^verbatim>\<open>downloadIfNew\<close> on the scanned descriptor only prints that the binary
  is up to date: the directory, the requests and the fetches are unchanged, whatever
  other names the listing holds. So when every selected descriptor of an update is
  present (as after a successful run), the run sends no request and leaves the directory
  as it was, also after any events.
\<close>

theorem C1_present_is_already_current:
  "(\<forall>(b::binary) files cb w. existsSync (filename b) d \<longrightarrow>
       downloadIfNew cfg (scan d b) files cb w = console_log (name b @ '' is up to date.'') w
     \<and> fs (downloadIfNew cfg (scan d b) files cb w) = fs w
     \<and> requests (downloadIfNew cfg (scan d b) files cb w) = requests w
     \<and> pending (downloadIfNew cfg (scan d b) files cb w) = pending w)
   \<and> (command (args cfg) = ''update'' \<and> (\<forall>b \<in> set (selected cfg). existsSync (filename b) d) \<longrightarrow>
       fs (run cfg evs (main cfg d)) = d
     \<and> requests (run cfg evs (main cfg d)) = []
     \<and> pending (run cfg evs (main cfg d)) = [])"
proof (intro conjI allI impI)
  fix b :: binary and files cb w
  assume "existsSync (filename b) d"
  then have ex: "exists (scan d b)" by (simp add: scan_exists)
  have nm: "name (scan d b) = name b" by (simp add: scan_def)
  show eq: "downloadIfNew cfg (scan d b) files cb w = console_log (name b @ '' is up to date.'') w"
    using downloadIfNew_present [OF ex] nm by simp
  show "fs (downloadIfNew cfg (scan d b) files cb w) = fs w"
    by (simp add: eq console_log_def)
  show "requests (downloadIfNew cfg (scan d b) files cb w) = requests w"
    by (simp add: eq console_log_def)
  show "pending (downloadIfNew cfg (scan d b) files cb w) = pending w"
    by (simp add: eq console_log_def)
next
  assume a: "command (args cfg) = ''update'' \<and> (\<forall>b \<in> set (selected cfg). existsSync (filename b) d)"
  let ?bins = "scan_all d (the_binaries (webdriverVersions cfg) (hst cfg))"
  have p1: "argv_standalone (args cfg) \<longrightarrow> exists (standalone ?bins)"
    and p2: "argv_chrome (args cfg) \<longrightarrow> exists (chrome ?bins)"
    and p3: "argv_ie (args cfg) \<longrightarrow> exists (ie ?bins)"
    using a by (simp_all add: selected_def scan_all_def scan_exists Let_def)
  have m: "main cfg d = update cfg ?bins (readdirSync d) (init d)"
    using a by (simp add: main_update)
  from update_all_present [OF p1 p2 p3, of "readdirSync d" "init d"]
  have u: "fs (main cfg d) = d" "requests (main cfg d) = []" "quiet (main cfg d)"
    by (simp_all add: m init_def quiet_def)
  from run_quiet [OF u(3), of cfg evs] u
  show "fs (run cfg evs (main cfg d)) = d" "requests (run cfg evs (main cfg d)) = []"
    "pending (run cfg evs (main cfg d)) = []"
    by simp_all
qed

subsection \<open>The handlers of a request\<close>

text \<open>
  Claim C5. A response with a status code other than 200 unlinks the destination file
  and prints the error with the code; it sends no new request. The file is absent after
  the handler, and it stays absent, with no request sent, while the remaining events of
  the same request (data, end, errors) are delivered.
\<close>

theorem C5_non_200_deletes_partial_file:
  assumes "status w = Alive" and "i < length (pending w)" and "c \<noteq> 200"
    and "\<forall>e \<in> set evs. \<exists>ev. e = Net i ev"
  shows "console (deliver cfg (Net i (Response c)) w) =
           console w @ [(Err, ''Error: Got code '' @ string_of_nat c @ '' from '' @
             fileUrl (pending w ! i))]
    \<and> \<not> existsSync (fileName (pending w ! i)) (fs (deliver cfg (Net i (Response c)) w))
    \<and> requests (deliver cfg (Net i (Response c)) w) = requests w
    \<and> \<not> existsSync (fileName (pending w ! i)) (fs (run cfg evs (deliver cfg (Net i (Response c)) w)))
    \<and> requests (run cfg evs (deliver cfg (Net i (Response c)) w)) = requests w"
proof -
  let ?p = "pending w ! i"
  let ?f = "fileName ?p"
  let ?w' = "deliver cfg (Net i (Response c)) w"
  have w': "?w' = console_error (''Error: Got code '' @ string_of_nat c @ '' from '' @ fileUrl ?p)
      (unlink ?f w)"
    using assms(1-3) by (simp add: deliver_net on_response_def Let_def)
  have co: "console ?w' = console w @
      [(Err, ''Error: Got code '' @ string_of_nat c @ '' from '' @ fileUrl ?p)]"
    by (simp add: w' unlink_def rm_pending_nth)
  have gone: "\<not> existsSync ?f (fs ?w')"
    by (simp add: w' unlink_def rm_pending_nth)
  have rq: "requests ?w' = requests w"
    by (simp add: w' unlink_def rm_pending_nth)
  have len: "i < length (pending ?w')"
    using assms(2) by (simp add: w' unlink_def rm_pending_nth)
  have nm: "fileName (pending ?w' ! i) = ?f"
    using assms(2) by (simp add: w' unlink_def rm_pending_nth)
  have cut: "status ?w' = Alive \<longrightarrow> \<not> linked (pending ?w' ! i)"
    using assms(2) by (simp add: w' unlink_def rm_pending_nth)
  from run_dead_fetch [OF len _ cut assms(4), of cfg] gone nm
  have "fs (run cfg evs ?w') = fs ?w' \<and> requests (run cfg evs ?w') = requests ?w'"
    by simp
  then show ?thesis using co gone rq by simp
qed


text \<open>
  Claim C10. The handler of the end of the response prints the line and calls the
  callback, in every state in which the script is alive, whatever events came before.
  So after a response with a code other than 200, or after a transport error, the
  installer of an archive is still called, on the path of the file that was just
  unlinked: opening the archive throws, and nobody catches it.
\<close>

theorem C10_end_always_calls_back:
  assumes "status w = Alive" and "i < length (pending w)"
  shows "deliver cfg (Net i End) w =
           call_callback cfg (fetch_callback (pending w ! i)) (fileName (pending w ! i))
             (console_log (fileName (pending w ! i) @ '' downloaded to '' @
                path_join (out_dir (args cfg)) (fileName (pending w ! i))) w)
    \<and> (fetch_callback (pending w ! i) = Some (Wrapper (Some inst))
         \<and> existsSync (fileName (pending w ! i)) (fs w) \<and> c \<noteq> 200 \<longrightarrow>
        status (run cfg [Net i (Response c), Net i End] w) =
          Uncaught (INVALID_FILENAME (fileName (pending w ! i))))
    \<and> (fetch_callback (pending w ! i) = Some (Wrapper (Some inst))
         \<and> existsSync (fileName (pending w ! i)) (fs w) \<longrightarrow>
        status (run cfg [Net i (NetError e), Net i End] w) =
          Uncaught (INVALID_FILENAME (fileName (pending w ! i))))"
proof -
  let ?p = "pending w ! i"
  let ?f = "fileName ?p"
  have first: "deliver cfg (Net i End) w =
           call_callback cfg (fetch_callback ?p) ?f
             (console_log (?f @ '' downloaded to '' @ path_join (out_dir (args cfg)) ?f) w)"
    using assms by (simp add: deliver_net on_end_def Let_def)
  have after: "status (deliver cfg (Net i End) w1) = Uncaught (INVALID_FILENAME ?f)"
    if cb: "fetch_callback ?p = Some (Wrapper (Some inst))" and ex: "existsSync ?f (fs w)"
      and w1: "status w1 = Alive" "pending w1 = pending (rm ?f w)" "fs w1 = fs (rm ?f w)" for w1
  proof -
    have len: "i < length (pending w1)" using assms(2) w1 by simp
    have p1: "pending w1 ! i = ?p\<lparr>linked := False\<rparr>"
      using assms(2) w1 by (simp add: rm_pending_nth)
    have gone: "\<not> existsSync ?f (fs (console_log s w1))" for s
      using w1 by simp
    show ?thesis
      using w1(1) len p1 cb installer_missing_file [OF gone, of cfg inst]
      by (simp add: deliver_net on_end_def Let_def)
  qed
  have second: "status (run cfg [Net i (Response c), Net i End] w) = Uncaught (INVALID_FILENAME ?f)"
    if a: "fetch_callback ?p = Some (Wrapper (Some inst)) \<and> existsSync ?f (fs w) \<and> c \<noteq> 200"
  proof -
    have "deliver cfg (Net i (Response c)) w =
        console_error (''Error: Got code '' @ string_of_nat c @ '' from '' @ fileUrl ?p) (rm ?f w)"
      using assms a by (simp add: deliver_net on_response_def unlink_def Let_def)
    then show ?thesis
      using after [of "deliver cfg (Net i (Response c)) w"] a assms(1) by simp
  qed
  have third: "status (run cfg [Net i (NetError e), Net i End] w) = Uncaught (INVALID_FILENAME ?f)"
    if a: "fetch_callback ?p = Some (Wrapper (Some inst)) \<and> existsSync ?f (fs w)"
  proof -
    have "deliver cfg (Net i (NetError e)) w =
        console_error (''Error: Got error '' @ e @ '' from '' @ fileUrl ?p) (rm ?f w)"
      using assms a by (simp add: deliver_net on_error_def unlink_def Let_def)
    then show ?thesis
      using after [of "deliver cfg (Net i (NetError e)) w"] a assms(1) by simp
  qed
  from first second third show ?thesis by blast
qed

subsection \<open>Runs of the examples\<close>

lemma example_all_present:
  "existsSync ''selenium-server-standalone-2.42.2.jar''
     [(''selenium-server-standalone-2.42.2.jar'', ''jar''), (''chromedriver_2.10.zip'', ''PK-chrome''),
      (''chromedriver'', ''ELF-new''), (''chromedriver_2.9.zip'', ''stale'')]"
  "existsSync ''chromedriver_2.10.zip''
     [(''selenium-server-standalone-2.42.2.jar'', ''jar''), (''chromedriver_2.10.zip'', ''PK-chrome''),
      (''chromedriver'', ''ELF-new''), (''chromedriver_2.9.zip'', ''stale'')]"
  by (simp_all add: existsSync_def)

theorem C1_present_is_already_current_witness:
  "command (args (example_cfg ''update'' linux_host True True False)) = ''update''
   \<and> existsSync ''selenium-server-standalone-2.42.2.jar''
       [(''selenium-server-standalone-2.42.2.jar'', ''jar''), (''chromedriver_2.10.zip'', ''PK-chrome''),
        (''chromedriver'', ''ELF-new''), (''chromedriver_2.9.zip'', ''stale'')]
   \<and> existsSync ''chromedriver_2.10.zip''
       [(''selenium-server-standalone-2.42.2.jar'', ''jar''), (''chromedriver_2.10.zip'', ''PK-chrome''),
        (''chromedriver'', ''ELF-new''), (''chromedriver_2.9.zip'', ''stale'')]
   \<and> fs (run (example_cfg ''update'' linux_host True True False) [Net 0 End, StdinData ''q'']
         (main (example_cfg ''update'' linux_host True True False)
           [(''selenium-server-standalone-2.42.2.jar'', ''jar''), (''chromedriver_2.10.zip'', ''PK-chrome''),
            (''chromedriver'', ''ELF-new''), (''chromedriver_2.9.zip'', ''stale'')])) =
       [(''selenium-server-standalone-2.42.2.jar'', ''jar''), (''chromedriver_2.10.zip'', ''PK-chrome''),
        (''chromedriver'', ''ELF-new''), (''chromedriver_2.9.zip'', ''stale'')]
   \<and> requests (run (example_cfg ''update'' linux_host True True False) [Net 0 End, StdinData ''q'']
         (main (example_cfg ''update'' linux_host True True False)
           [(''selenium-server-standalone-2.42.2.jar'', ''jar''), (''chromedriver_2.10.zip'', ''PK-chrome''),
            (''chromedriver'', ''ELF-new''), (''chromedriver_2.9.zip'', ''stale'')])) = []
   \<and> fs (downloadIfNew (example_cfg ''update'' linux_host True True False)
         (scan [(''chromedriver_2.10.zip'', ''PK-chrome''), (''chromedriver_2.9.zip'', ''stale'')]
            (chrome (the_binaries example_versions linux_host)))
         [''chromedriver_2.10.zip'', ''chromedriver_2.9.zip''] (Some ChromeInstall)
         (init [(''chromedriver_2.10.zip'', ''PK-chrome''), (''chromedriver_2.9.zip'', ''stale'')])) =
       [(''chromedriver_2.10.zip'', ''PK-chrome''), (''chromedriver_2.9.zip'', ''stale'')]"
proof -
  let ?cfg = "example_cfg ''update'' linux_host True True False"
  let ?d = "[(''selenium-server-standalone-2.42.2.jar'', ''jar''),
    (''chromedriver_2.10.zip'', ''PK-chrome''), (''chromedriver'', ''ELF-new''),
    (''chromedriver_2.9.zip'', ''stale'')]"
  let ?d2 = "[(''chromedriver_2.10.zip'', ''PK-chrome''), (''chromedriver_2.9.zip'', ''stale'')]"
  let ?b = "chrome (the_binaries example_versions linux_host)"
  have h1: "command (args ?cfg) = ''update''" by (simp add: example_cfg_def)
  have h2: "\<forall>b \<in> set (selected ?cfg). existsSync (filename b) ?d"
    by (simp add: selected_def example_defs)
  have h3: "existsSync (filename ?b) ?d2"
    by (simp add: example_defs)
  from C1_present_is_already_current [of ?d ?cfg "[Net 0 End, StdinData ''q'']"] h1 h2
  have a: "fs (run ?cfg [Net 0 End, StdinData ''q''] (main ?cfg ?d)) = ?d"
    "requests (run ?cfg [Net 0 End, StdinData ''q''] (main ?cfg ?d)) = []"
    by blast+
  from C1_present_is_already_current [of ?d2 ?cfg "[]"] h3
  have "fs (downloadIfNew ?cfg (scan ?d2 ?b) [''chromedriver_2.10.zip'', ''chromedriver_2.9.zip'']
      (Some ChromeInstall) (init ?d2)) = fs (init ?d2)"
    by blast
  then have b: "fs (downloadIfNew ?cfg (scan ?d2 ?b) [''chromedriver_2.10.zip'', ''chromedriver_2.9.zip'']
      (Some ChromeInstall) (init ?d2)) = ?d2"
    by (simp add: init_def)
  show ?thesis using h1 example_all_present a b by simp
qed

theorem C5_non_200_deletes_partial_file_witness:
  "status (main (example_cfg ''update'' linux_host False True False)
      [(''chromedriver_2.9.zip'', ''old'')]) = Alive
   \<and> 0 < length (pending (main (example_cfg ''update'' linux_host False True False)
      [(''chromedriver_2.9.zip'', ''old'')]))
   \<and> (404::nat) \<noteq> 200
   \<and> existsSync ''chromedriver_2.10.zip'' (fs (main (example_cfg ''update'' linux_host False True False)
      [(''chromedriver_2.9.zip'', ''old'')]))
   \<and> \<not> existsSync ''chromedriver_2.10.zip''
        (fs (deliver (example_cfg ''update'' linux_host False True False) (Net 0 (Response 404))
          (main (example_cfg ''update'' linux_host False True False)
            [(''chromedriver_2.9.zip'', ''old'')])))
   \<and> \<not> existsSync ''chromedriver_2.10.zip''
        (fs (run (example_cfg ''update'' linux_host False True False)
          [Net 0 (Data ''Not Found''), Net 0 End]
          (deliver (example_cfg ''update'' linux_host False True False) (Net 0 (Response 404))
            (main (example_cfg ''update'' linux_host False True False)
              [(''chromedriver_2.9.zip'', ''old'')]))))
   \<and> last (console (deliver (example_cfg ''update'' linux_host False True False)
          (Net 0 (Response 404))
          (main (example_cfg ''update'' linux_host False True False)
            [(''chromedriver_2.9.zip'', ''old'')]))) =
       (Err, ''Error: Got code 404 from https://chromedriver.storage.googleapis.com/2.10/chromedriver_linux64.zip'')"
proof -
  let ?cfg = "example_cfg ''update'' linux_host False True False"
  let ?w = "main ?cfg [(''chromedriver_2.9.zip'', ''old'')]"
  let ?evs = "[Net 0 (Data ''Not Found''), Net 0 End]"
  have h1: "status ?w = Alive" by (simp add: example_chrome_update)
  have h2: "0 < length (pending ?w)" by (simp add: example_chrome_update)
  have h3: "(404::nat) \<noteq> 200" by simp
  have h4: "\<forall>e \<in> set ?evs. \<exists>ev. e = Net 0 ev" by simp
  have nm: "fileName (pending ?w ! 0) = ''chromedriver_2.10.zip''"
    "fileUrl (pending ?w ! 0) =
      ''https://chromedriver.storage.googleapis.com/2.10/chromedriver_linux64.zip''"
    by (simp_all add: example_chrome_update)
  have ex: "existsSync ''chromedriver_2.10.zip'' (fs ?w)"
    by (simp add: example_chrome_update existsSync_def)
  have dg: "string_of_nat 404 = ''404''" by code_simp
  from C5_non_200_deletes_partial_file [OF h1 h2 h3 h4, of ?cfg] nm dg
  have "\<not> existsSync ''chromedriver_2.10.zip'' (fs (deliver ?cfg (Net 0 (Response 404)) ?w))"
    and "\<not> existsSync ''chromedriver_2.10.zip''
      (fs (run ?cfg ?evs (deliver ?cfg (Net 0 (Response 404)) ?w)))"
    and "last (console (deliver ?cfg (Net 0 (Response 404)) ?w)) =
       (Err, ''Error: Got code 404 from https://chromedriver.storage.googleapis.com/2.10/chromedriver_linux64.zip'')"
    by simp_all
  then show ?thesis using h1 h2 ex by simp
qed

theorem C10_end_always_calls_back_witness:
  "status (main (example_cfg ''update'' linux_host False True False)
      [(''chromedriver_2.9.zip'', ''old'')]) = Alive
   \<and> 0 < length (pending (main (example_cfg ''update'' linux_host False True False)
      [(''chromedriver_2.9.zip'', ''old'')]))
   \<and> existsSync ''chromedriver_2.10.zip'' (fs (main (example_cfg ''update'' linux_host False True False)
      [(''chromedriver_2.9.zip'', ''old'')]))
   \<and> (500::nat) \<noteq> 200
   \<and> status (run (example_cfg ''update'' linux_host False True False)
        [Net 0 (Response 500), Net 0 End]
        (main (example_cfg ''update'' linux_host False True False)
          [(''chromedriver_2.9.zip'', ''old'')])) =
      Uncaught (INVALID_FILENAME ''chromedriver_2.10.zip'')
   \<and> status (run (example_cfg ''update'' linux_host False True False)
        [Net 0 (NetError ''ECONNRESET''), Net 0 End]
        (main (example_cfg ''update'' linux_host False True False)
          [(''chromedriver_2.9.zip'', ''old'')])) =
      Uncaught (INVALID_FILENAME ''chromedriver_2.10.zip'')"
proof -
  let ?cfg = "example_cfg ''update'' linux_host False True False"
  let ?w = "main ?cfg [(''chromedriver_2.9.zip'', ''old'')]"
  have h1: "status ?w = Alive" by (simp add: example_chrome_update)
  have h2: "0 < length (pending ?w)" by (simp add: example_chrome_update)
  have nm: "fileName (pending ?w ! 0) = ''chromedriver_2.10.zip''"
    and cb: "fetch_callback (pending ?w ! 0) = Some (Wrapper (Some ChromeInstall))"
    by (simp_all add: example_chrome_update)
  have ex: "existsSync ''chromedriver_2.10.zip'' (fs ?w)"
    by (simp add: example_chrome_update existsSync_def)
  from C10_end_always_calls_back [OF h1 h2, of ?cfg ChromeInstall 500 "''ECONNRESET''"] nm cb ex
  have "status (run ?cfg [Net 0 (Response 500), Net 0 End] ?w) =
      Uncaught (INVALID_FILENAME ''chromedriver_2.10.zip'')"
    and "status (run ?cfg [Net 0 (NetError ''ECONNRESET''), Net 0 End] ?w) =
      Uncaught (INVALID_FILENAME ''chromedriver_2.10.zip'')"
    by simp_all
  then show ?thesis using h1 h2 ex by simp
qed

subsection \<open>Reconciliation of a binary that is not present\<close>

lemma unlinkSync_fields [simp]:
  "requests (unlinkSync f w) = requests w" "console (unlinkSync f w) = console w"
  "spawned (unlinkSync f w) = spawned w" "supervising (unlinkSync f w) = supervising w"
  "length (pending (unlinkSync f w)) = length (pending w)"
  by (simp_all add: unlinkSync_def)

lemma unlink_matching_fields [simp]:
  "requests (unlink_matching pre files w) = requests w"
  "console (unlink_matching pre files w) = console w"
  "spawned (unlink_matching pre files w) = spawned w"
  "supervising (unlink_matching pre files w) = supervising w"
  "length (pending (unlink_matching pre files w)) = length (pending w)"
  by (induction pre files w rule: unlink_matching.induct; simp add: Let_def)+

lemma rm_pending_same:
  "\<forall>p \<in> set (pending w). fileName p \<noteq> f \<Longrightarrow> pending (rm f w) = pending w"
  by (simp add: rm_def map_idI)

lemma unlink_matching_ok:
  assumes "status w = Alive" and "distinct files"
    and "\<forall>f \<in> set files. indexOf f pre \<noteq> - 1 \<longrightarrow> existsSync f (fs w)"
  shows "status (unlink_matching pre files w) = Alive
    \<and> fs (unlink_matching pre files w) =
        filter (\<lambda>e. \<not> (fst e \<in> set files \<and> indexOf (fst e) pre \<noteq> - 1)) (fs w)"
  using assms
proof (induction files arbitrary: w)
  case Nil
  then show ?case by simp
next
  case (Cons f0 files)
  show ?case
  proof (cases "indexOf f0 pre \<noteq> - 1")
    case False
    have "status (unlink_matching pre files w) = Alive
      \<and> fs (unlink_matching pre files w) =
        filter (\<lambda>e. \<not> (fst e \<in> set files \<and> indexOf (fst e) pre \<noteq> - 1)) (fs w)"
      using Cons.prems by (intro Cons.IH) simp_all
    moreover have "filter (\<lambda>e. \<not> (fst e \<in> set files \<and> indexOf (fst e) pre \<noteq> - 1)) (fs w) =
      filter (\<lambda>e. \<not> (fst e \<in> set (f0 # files) \<and> indexOf (fst e) pre \<noteq> - 1)) (fs w)"
      using False by (intro filter_cong) auto
    ultimately show ?thesis using False by simp
  next
    case True
    then have ex: "existsSync f0 (fs w)" using Cons.prems by simp
    let ?w1 = "rm f0 w"
    have u: "unlinkSync f0 w = ?w1" using ex by (simp add: unlinkSync_def)
    have "status (unlink_matching pre files ?w1) = Alive
      \<and> fs (unlink_matching pre files ?w1) =
        filter (\<lambda>e. \<not> (fst e \<in> set files \<and> indexOf (fst e) pre \<noteq> - 1)) (fs ?w1)"
      using Cons.prems by (intro Cons.IH) auto
    moreover have "filter (\<lambda>e. \<not> (fst e \<in> set files \<and> indexOf (fst e) pre \<noteq> - 1)) (fs ?w1) =
      filter (\<lambda>e. \<not> (fst e \<in> set (f0 # files) \<and> indexOf (fst e) pre \<noteq> - 1)) (fs w)"
      using True by (auto simp: remove_entry_def intro: filter_cong)
    ultimately show ?thesis using True u Cons.prems(1) by simp
  qed
qed

lemma unlink_matching_pending:
  assumes "\<forall>p \<in> set (pending w). fileName p \<notin> set files"
  shows "pending (unlink_matching pre files w) = pending w"
  using assms
proof (induction files arbitrary: w)
  case Nil
  then show ?case by simp
next
  case (Cons f0 files)
  have same: "pending (rm f0 w) = pending w"
    using Cons.prems by (intro rm_pending_same) auto
  have "pending (unlink_matching pre files w) = pending w"
    using Cons.prems by (intro Cons.IH) simp
  moreover have "pending (unlink_matching pre files (rm f0 w)) = pending (rm f0 w)"
    using Cons.prems same by (intro Cons.IH) simp
  ultimately show ?case using same
    by (simp add: Let_def unlinkSync_def)
qed

lemma downloadIfNew_unavailable:
  assumes "\<not> exists bin" and "falsy (url bin)"
  shows "downloadIfNew cfg bin files cb w =
    (let w1 = unlink_matching (prefix bin) files w
     in if status w1 \<noteq> Alive then w1
        else console_error (name bin @ '' is not available for your system.'')
               (console_log (''Updating '' @ name bin) w1))"
  using assms by (simp add: downloadIfNew_def Let_def)

lemma downloadIfNew_available:
  assumes "\<not> exists bin" and "\<not> falsy (url bin)"
  shows "downloadIfNew cfg bin files cb w =
    (let w1 = unlink_matching (prefix bin) files w
     in if status w1 \<noteq> Alive then w1
        else httpGetFile cfg (the (url bin)) (filename bin) (Some (Wrapper cb))
               (console_log (''Updating '' @ name bin) w1))"
  using assms by (simp add: downloadIfNew_def Let_def)


lemma readFile_writeFile [simp]: "readFile f (writeFile f c d) = Some c"
  by (simp add: readFile_def writeFile_def)

lemma readFile_appendFile:
  "readFile f (appendFile f c d) = map_option (\<lambda>x. x @ c) (readFile f d)"
  by (induction d) (auto simp: readFile_def appendFile_def)

lemma appendFile_Nil [simp]: "appendFile f [] d = d"
  by (induction d) (auto simp: appendFile_def)

lemma appendFile_appendFile [simp]:
  "appendFile f b (appendFile f a d) = appendFile f (a @ b) d"
  by (induction d) (auto simp: appendFile_def)

lemma httpGetFile_fields [simp]:
  "fs (httpGetFile cfg u f cb w) = writeFile f [] (fs w)"
  "requests (httpGetFile cfg u f cb w) = requests w @ [u]"
  "pending (httpGetFile cfg u f cb w) =
     pending w @ [\<lparr>fileUrl = u, fileName = f, fetch_callback = cb, linked = True\<rparr>]"
  "status (httpGetFile cfg u f cb w) = status w"
  "spawned (httpGetFile cfg u f cb w) = spawned w"
  "supervising (httpGetFile cfg u f cb w) = supervising w"
  by (simp_all add: httpGetFile_def Let_def)

text \<open>The data of a response reaches the file while the stream is linked.\<close>

lemma run_data:
  assumes "status w = Alive" and "i < length (pending w)" and "linked (pending w ! i)"
  shows "run cfg (map (\<lambda>c. Net i (Data c)) chunks) w =
     w\<lparr>fs := appendFile (fileName (pending w ! i)) (concat chunks) (fs w)\<rparr>"
  using assms
proof (induction chunks arbitrary: w)
  case Nil
  then show ?case by simp
next
  case (Cons c cs)
  let ?w1 = "w\<lparr>fs := appendFile (fileName (pending w ! i)) c (fs w)\<rparr>"
  have d: "deliver cfg (Net i (Data c)) w = ?w1"
    using Cons.prems by (simp add: deliver_net on_data_def Let_def)
  have "run cfg (map (\<lambda>c. Net i (Data c)) cs) ?w1 =
     ?w1\<lparr>fs := appendFile (fileName (pending ?w1 ! i)) (concat cs) (fs ?w1)\<rparr>"
    using Cons.prems by (intro Cons.IH) simp_all
  then show ?case using d by simp
qed

text \<open>
  What the installers leave in the directory: on an archive that decodes, the entries of
  the archive are added to the names of the directory.
\<close>

lemma opt_callback_names:
  assumes "readFile f (fs w) = Some bytes" and "cb \<noteq> None \<longrightarrow> unzip cfg bytes = Some es"
  shows "existsSync g (fs (opt_callback cfg cb f w)) =
     (existsSync g (fs w) \<or> (cb \<noteq> None \<and> g \<in> fst ` set es))"
proof (cases cb)
  case None
  then show ?thesis by simp
next
  case (Some inst)
  then show ?thesis using assms
    by (cases inst) (auto simp: install_chrome_def install_ie_def chmodSync_def Let_def)
qed

lemma run_ok_events:
  assumes "status w = Alive" and "i < length (pending w)" and "linked (pending w ! i)"
    and "fetch_callback (pending w ! i) = Some (Wrapper cb)"
    and "readFile (fileName (pending w ! i)) (fs w) = Some []"
    and "cb \<noteq> None \<longrightarrow> unzip cfg (concat chunks) = Some es"
  shows "existsSync g (fs (run cfg (ok_events i chunks) w)) =
     (existsSync g (fs w) \<or> (cb \<noteq> None \<and> g \<in> fst ` set es))"
proof -
  let ?p = "pending w ! i"
  let ?f = "fileName ?p"
  let ?w2 = "w\<lparr>fs := appendFile ?f (concat chunks) (fs w)\<rparr>"
  have r: "deliver cfg (Net i (Response 200)) w = w"
    using assms(1,2) by (simp add: deliver_net on_response_def)
  have d: "run cfg (map (\<lambda>c. Net i (Data c)) chunks) w = ?w2"
    using assms(1-3) by (rule run_data)
  have rd: "readFile ?f (fs ?w2) = Some (concat chunks)"
    using assms(5) by (simp add: readFile_appendFile)
  let ?w3 = "console_log (?f @ '' downloaded to '' @ path_join (out_dir (args cfg)) ?f) ?w2"
  have e: "deliver cfg (Net i End) ?w2 = opt_callback cfg cb ?f ?w3"
    using assms(1,2,4) by (simp add: deliver_net on_end_def Let_def)
  have "run cfg (ok_events i chunks) w = opt_callback cfg cb ?f ?w3"
    using r d e by (simp add: ok_events_def run_append)
  moreover have "existsSync g (fs (opt_callback cfg cb ?f ?w3)) =
     (existsSync g (fs ?w3) \<or> (cb \<noteq> None \<and> g \<in> fst ` set es))"
    using rd assms(6) by (intro opt_callback_names) simp_all
  ultimately show ?thesis by simp
qed

text \<open>
  One binary that is not present, brought up to date: the stale names of the listing are
  unlinked, the file is fetched with a response of 200 and, for an archive, extracted.
\<close>

lemma reconcile_names:
  assumes "\<not> exists bin" and "\<not> falsy (url bin)" and "status w = Alive"
    and "distinct files"
    and "\<forall>f \<in> set files. indexOf f (prefix bin) \<noteq> - 1 \<longrightarrow> existsSync f (fs w)"
    and "cb \<noteq> None \<longrightarrow> unzip cfg (concat chunks) = Some es"
  shows "existsSync g (fs (run cfg (ok_events (length (pending w)) chunks)
            (downloadIfNew cfg bin files cb w))) =
     (g = filename bin \<or> (cb \<noteq> None \<and> g \<in> fst ` set es)
      \<or> (existsSync g (fs w) \<and> \<not> (g \<in> set files \<and> indexOf g (prefix bin) \<noteq> - 1)))"
proof -
  let ?w1 = "unlink_matching (prefix bin) files w"
  let ?w2 = "console_log (''Updating '' @ name bin) ?w1"
  let ?w3 = "httpGetFile cfg (the (url bin)) (filename bin) (Some (Wrapper cb)) ?w2"
  let ?i = "length (pending w)"
  from unlink_matching_ok [OF assms(3,4,5)]
  have ok: "status ?w1 = Alive"
    and fs1: "fs ?w1 = filter (\<lambda>e. \<not> (fst e \<in> set files \<and> indexOf (fst e) (prefix bin) \<noteq> - 1)) (fs w)"
    by simp_all
  have dl: "downloadIfNew cfg bin files cb w = ?w3"
    using downloadIfNew_available [OF assms(1,2), of cfg files cb w] ok by (simp add: Let_def)
  have len: "length (pending ?w2) = ?i" by simp
  have nth: "pending ?w3 ! ?i =
      \<lparr>fileUrl = the (url bin), fileName = filename bin, fetch_callback = Some (Wrapper cb),
        linked = True\<rparr>"
    using len by (simp add: nth_append)
  have "existsSync g (fs (run cfg (ok_events ?i chunks) ?w3)) =
      (existsSync g (fs ?w3) \<or> (cb \<noteq> None \<and> g \<in> fst ` set es))"
    using ok nth assms(6) by (intro run_ok_events) simp_all
  moreover have "existsSync g (fs ?w1) =
      (existsSync g (fs w) \<and> \<not> (g \<in> set files \<and> indexOf g (prefix bin) \<noteq> - 1))"
    by (auto simp: fs1 existsSync_def)
  ultimately show ?thesis using dl by auto
qed


lemma reconcile_alive_after_fetch:
  assumes "\<not> exists bin" and "\<not> falsy (url bin)" and "status w = Alive"
    and "distinct files"
    and "\<forall>f \<in> set files. indexOf f (prefix bin) \<noteq> - 1 \<longrightarrow> existsSync f (fs w)"
  shows "downloadIfNew cfg bin files cb w =
      httpGetFile cfg (the (url bin)) (filename bin) (Some (Wrapper cb))
        (console_log (''Updating '' @ name bin) (unlink_matching (prefix bin) files w))"
proof -
  from unlink_matching_ok [OF assms(3,4,5)]
  have "status (unlink_matching (prefix bin) files w) = Alive" by simp
  then show ?thesis
    using downloadIfNew_available [OF assms(1,2), of cfg files cb w] by (simp add: Let_def)
qed


lemmas handler_defs = ok_events_def deliver_def on_net_def on_response_def on_error_def
  on_data_def on_end_def install_chrome_def install_ie_def chmodSync_def unlink_def
  appendFile_def readFile_def example_unzip_def path_join_def

lemma example_ie_update:
  "main (example_cfg ''update'' windows_host False False True)
      [(''IEDriverServer_2.41.0.zip'', ''PK-old''), (''IEDriverServer.exe'', ''MZ-old'')] =
     \<lparr> fs = [(''IEDriverServer_2.42.0.zip'', [])],
       console = [(Out, ''Updating IEDriver''),
         (Out, ''downloading https://selenium-release.storage.googleapis.com/2.42/IEDriverServer_x64_2.42.0.zip...'')],
       requests = [''https://selenium-release.storage.googleapis.com/2.42/IEDriverServer_x64_2.42.0.zip''],
       pending = [\<lparr>fileUrl = ''https://selenium-release.storage.googleapis.com/2.42/IEDriverServer_x64_2.42.0.zip'',
          fileName = ''IEDriverServer_2.42.0.zip'', fetch_callback = Some (Wrapper (Some IeInstall)),
          linked = True\<rparr>],
       spawned = [], supervising = False, status = Alive \<rparr>"
  by (simp add: model_defs)

lemma example_ie_run:
  "run (example_cfg ''update'' windows_host False False True) (ok_events 0 [''PK-'', ''ie''])
     (main (example_cfg ''update'' windows_host False False True)
        [(''IEDriverServer_2.41.0.zip'', ''PK-old''), (''IEDriverServer.exe'', ''MZ-old'')]) =
     \<lparr> fs = [(''IEDriverServer.exe'', ''MZ-new''), (''IEDriverServer_2.42.0.zip'', ''PK-ie'')],
       console = [(Out, ''Updating IEDriver''),
         (Out, ''downloading https://selenium-release.storage.googleapis.com/2.42/IEDriverServer_x64_2.42.0.zip...''),
         (Out, ''IEDriverServer_2.42.0.zip downloaded to selenium/IEDriverServer_2.42.0.zip'')],
       requests = [''https://selenium-release.storage.googleapis.com/2.42/IEDriverServer_x64_2.42.0.zip''],
       pending = [\<lparr>fileUrl = ''https://selenium-release.storage.googleapis.com/2.42/IEDriverServer_x64_2.42.0.zip'',
          fileName = ''IEDriverServer_2.42.0.zip'', fetch_callback = Some (Wrapper (Some IeInstall)),
          linked = True\<rparr>],
       spawned = [], supervising = False, status = Alive \<rparr>"
  by (simp add: example_ie_update)
    (simp add: handler_defs example_cfg_def console_log_def writeFile_def remove_entry_def
      existsSync_def windows_host_def)

lemma example_chrome_run:
  "run (example_cfg ''update'' linux_host False True False) (ok_events 0 [''PK-'', ''chrome''])
     (main (example_cfg ''update'' linux_host False True False)
        [(''chromedriver_2.9.zip'', ''old'')]) =
     \<lparr> fs = [(''chromedriver'', ''ELF-new''), (''chromedriver_2.10.zip'', ''PK-chrome'')],
       console = [(Out, ''Updating chromedriver''),
         (Out, ''downloading https://chromedriver.storage.googleapis.com/2.10/chromedriver_linux64.zip...''),
         (Out, ''chromedriver_2.10.zip downloaded to selenium/chromedriver_2.10.zip'')],
       requests = [''https://chromedriver.storage.googleapis.com/2.10/chromedriver_linux64.zip''],
       pending = [\<lparr>fileUrl = ''https://chromedriver.storage.googleapis.com/2.10/chromedriver_linux64.zip'',
          fileName = ''chromedriver_2.10.zip'', fetch_callback = Some (Wrapper (Some ChromeInstall)),
          linked = True\<rparr>],
       spawned = [], supervising = False, status = Alive \<rparr>"
  by (simp add: example_chrome_update)
    (simp add: handler_defs example_cfg_def console_log_def writeFile_def remove_entry_def
      existsSync_def linux_host_def throw_def)

lemma example_ie_licensed_run:
  "fs (run (example_cfg ''update'' windows_host False False True) (ok_events 0 [''PK-ie-licensed''])
     (main (example_cfg ''update'' windows_host False False True)
        [(''license.txt'', ''old terms'')])) =
     [(''IEDriverServer.exe'', ''MZ-new''), (''IEDriverServer_2.42.0.zip'', ''PK-ie-licensed''),
      (''license.txt'', ''old terms'')]"
  by (simp add: model_defs)
    (simp add: handler_defs example_cfg_def console_log_def writeFile_def remove_entry_def
      existsSync_def windows_host_def)

lemma unlink_matching_keeps:
  assumes "existsSync f (fs w)" and "indexOf f pre = - 1"
  shows "existsSync f (fs (unlink_matching pre files w))"
  using assms
proof (induction files arbitrary: w)
  case Nil
  then show ?case by simp
next
  case (Cons f0 files)
  have "f \<noteq> f0" if "indexOf f0 pre \<noteq> - 1" using that Cons.prems(2) by auto
  then have "existsSync f (fs (rm f0 w))" if "indexOf f0 pre \<noteq> - 1"
    using that Cons.prems(1) by simp
  then show ?case using Cons
    by (simp add: Let_def unlinkSync_def)
qed

lemma unlink_matching_fileNames:
  "map fileName (pending (unlink_matching pre files w)) = map fileName (pending w)"
proof (induction files arbitrary: w)
  case Nil
  then show ?case by simp
next
  case (Cons f0 files)
  have "map fileName (pending (rm f0 w)) = map fileName (pending w)"
    by (simp add: rm_def comp_def if_distrib [of fileName])
  then show ?case using Cons [of w] Cons [of "rm f0 w"]
    by (simp add: Let_def unlinkSync_def)
qed

lemma downloadIfNew_keeps:
  assumes "existsSync f (fs w)" and "indexOf f (prefix bin) = - 1"
  shows "existsSync f (fs (downloadIfNew cfg bin files cb w))"
  using unlink_matching_keeps [OF assms, of files] assms(1)
  by (simp add: downloadIfNew_def Let_def)

lemma downloadIfNew_fileNames:
  "set (map fileName (pending (downloadIfNew cfg bin files cb w))) \<subseteq>
     set (map fileName (pending w)) \<union> (if exists bin then {} else {filename bin})"
  using unlink_matching_fileNames [of "prefix bin" files w]
  by (auto simp: downloadIfNew_def Let_def simp del: set_map)

lemma downloadIfNew_cfg:
  "ignore_ssl (args cfg') = ignore_ssl (args cfg) \<Longrightarrow>
   downloadIfNew cfg' bin files cb w = downloadIfNew cfg bin files cb w"
  by (simp add: downloadIfNew_def httpGetFile_def Let_def)


lemma unavailable_effect:
  assumes "\<not> exists bin" and "falsy (url bin)" and "status w = Alive"
    and "distinct files"
    and "\<forall>f \<in> set files. indexOf f (prefix bin) \<noteq> - 1 \<longrightarrow> existsSync f (fs w)"
    and "\<forall>p \<in> set (pending w). fileName p \<notin> set files"
  shows "console (downloadIfNew cfg bin files cb w) =
           console w @ [(Out, ''Updating '' @ name bin),
                        (Err, name bin @ '' is not available for your system.'')]
    \<and> requests (downloadIfNew cfg bin files cb w) = requests w
    \<and> pending (downloadIfNew cfg bin files cb w) = pending w
    \<and> status (downloadIfNew cfg bin files cb w) = Alive
    \<and> fs (downloadIfNew cfg bin files cb w) =
        filter (\<lambda>e. \<not> (fst e \<in> set files \<and> indexOf (fst e) (prefix bin) \<noteq> - 1)) (fs w)"
proof -
  let ?w1 = "unlink_matching (prefix bin) files w"
  from unlink_matching_ok [OF assms(3,4,5)]
  have ok: "status ?w1 = Alive"
    and fs1: "fs ?w1 = filter (\<lambda>e. \<not> (fst e \<in> set files \<and> indexOf (fst e) (prefix bin) \<noteq> - 1)) (fs w)"
    by simp_all
  have pe: "pending ?w1 = pending w"
    using assms(6) by (rule unlink_matching_pending)
  have "downloadIfNew cfg bin files cb w =
      console_error (name bin @ '' is not available for your system.'')
        (console_log (''Updating '' @ name bin) ?w1)"
    using downloadIfNew_unavailable [OF assms(1,2), of cfg files cb w] ok by (simp add: Let_def)
  then show ?thesis using ok fs1 pe by simp
qed

lemma update_without_ie:
  "update cfg bins files w =
     (let w2 = update (without_ie cfg) bins files w
      in if status w2 = Alive \<and> argv_ie (args cfg)
         then downloadIfNew cfg (ie bins) files (Some IeInstall) w2 else w2)"
proof -
  have c: "downloadIfNew (without_ie cfg) b files cb v = downloadIfNew cfg b files cb v" for b cb v
    by (rule downloadIfNew_cfg) (simp add: without_ie_def)
  show ?thesis
    by (simp add: update_def [of cfg] update_def [of "without_ie cfg"] Let_def c)
      (simp add: without_ie_def)
qed

text \<open>What the calls for the standalone jar and chromedriver leave of the scan.\<close>

lemma update_without_ie_frame:
  fixes d :: dir and cfg :: config
  defines "bins \<equiv> scan_all d (the_binaries (webdriverVersions cfg) (hst cfg))"
  defines "w2 \<equiv> update (without_ie cfg) bins (readdirSync d) (init d)"
  assumes "existsSync f d" and "indexOf f ''selenium-server-standalone'' = - 1"
    and "indexOf f ''chromedriver_'' = - 1"
  shows "existsSync f (fs w2)"
proof -
  have pre: "prefix (standalone bins) = ''selenium-server-standalone''"
    "prefix (chrome bins) = ''chromedriver_''"
    by (simp_all add: bins_def scan_all_def scan_def the_binaries_def)
  have a: "existsSync f (fs (init d))" using assms(3) by (simp add: init_def)
  have b: "existsSync f (fs (downloadIfNew c (standalone bins) fl cb v))"
    if "existsSync f (fs v)" for c fl cb v
    using that assms(4) pre by (intro downloadIfNew_keeps) simp_all
  have c: "existsSync f (fs (downloadIfNew c (chrome bins) fl cb v))"
    if "existsSync f (fs v)" for c fl cb v
    using that assms(5) pre by (intro downloadIfNew_keeps) simp_all
  show ?thesis
    unfolding w2_def update_def [of "without_ie cfg"] Let_def
    using a b c by (simp add: without_ie_def)
qed

lemma update_without_ie_pending:
  fixes d :: dir and cfg :: config
  defines "bins \<equiv> scan_all d (the_binaries (webdriverVersions cfg) (hst cfg))"
  defines "w2 \<equiv> update (without_ie cfg) bins (readdirSync d) (init d)"
  shows "\<forall>p \<in> set (pending w2). fileName p \<notin> set (readdirSync d)"
proof -
  have nx: "\<not> existsSync (filename b) d" if "\<not> exists (scan d b)" for b
    using that by (simp add: scan_exists)
  have fnm: "filename (standalone bins) = filename (standalone (the_binaries (webdriverVersions cfg) (hst cfg)))"
    "filename (chrome bins) = filename (chrome (the_binaries (webdriverVersions cfg) (hst cfg)))"
    by (simp_all add: bins_def scan_all_def scan_filename)
  have step: "set (map fileName (pending (downloadIfNew c b fl cb v))) \<inter> set (readdirSync d) = {}"
    if "set (map fileName (pending v)) \<inter> set (readdirSync d) = {}"
      and "exists b \<or> \<not> existsSync (filename b) d" for c b fl cb v
    using downloadIfNew_fileNames [of c b fl cb v] that
    by (auto simp: readdirSync_set simp del: set_map split: if_splits)
  have s0: "set (map fileName (pending (init d))) \<inter> set (readdirSync d) = {}"
    by (simp add: init_def)
  have e1: "exists (standalone bins) \<or> \<not> existsSync (filename (standalone bins)) d"
    by (simp add: bins_def scan_all_def scan_exists scan_filename)
  have e2: "exists (chrome bins) \<or> \<not> existsSync (filename (chrome bins)) d"
    by (simp add: bins_def scan_all_def scan_exists scan_filename)
  have "set (map fileName (pending w2)) \<inter> set (readdirSync d) = {}"
    unfolding w2_def update_def [of "without_ie cfg"] Let_def
    using s0 step [OF _ e1] step [OF _ e2]
    by (simp add: without_ie_def del: set_map)
  then show ?thesis by auto
qed


lemma main_without_ie:
  assumes "command (args cfg) = ''update''"
  shows "main cfg d =
     (let w2 = main (without_ie cfg) d
      in if status w2 = Alive \<and> argv_ie (args cfg)
         then downloadIfNew cfg
                (ie (scan_all d (the_binaries (webdriverVersions cfg) (hst cfg))))
                (readdirSync d) (Some IeInstall) w2
         else w2)"
proof -
  have "command (args (without_ie cfg)) = ''update''"
    using assms by (simp add: without_ie_def)
  then have "main (without_ie cfg) d =
      update (without_ie cfg) (scan_all d (the_binaries (webdriverVersions cfg) (hst cfg)))
        (readdirSync d) (init d)"
    by (simp add: main_update) (simp add: without_ie_def)
  then show ?thesis
    using assms update_without_ie [of cfg _ "readdirSync d" "init d"]
    by (simp add: main_update)
qed


text \<open>
  A descriptor that is not present and has no URL on this host, when the listed names
  that contain its prefix are still in the directory: \<^verbatim>\<open>downloadIfNew\<close> unlinks
  them, prints that the binary is not available and returns; no request, no fetch, the
  other fetches and the status as they were. For the IEDriver on a host that is not
  Windows, and a directory in which no name holds its prefix together with the prefix of
  another binary, a run of \<^verbatim>\<open>update\<close> has the requests, the fetches and the status
  of the same run with the IEDriver not selected.
\<close>

lemma unavailable_without_overlap:
  "(\<not> exists bin \<and> falsy (url bin) \<and> status w = Alive \<and> distinct files
      \<and> (\<forall>f \<in> set files. indexOf f (prefix bin) \<noteq> - 1 \<longrightarrow> existsSync f (fs w))
      \<and> (\<forall>p \<in> set (pending w). fileName p \<notin> set files) \<longrightarrow>
        console (downloadIfNew cfg bin files cb w) =
           console w @ [(Out, ''Updating '' @ name bin),
                        (Err, name bin @ '' is not available for your system.'')]
      \<and> requests (downloadIfNew cfg bin files cb w) = requests w
      \<and> pending (downloadIfNew cfg bin files cb w) = pending w
      \<and> status (downloadIfNew cfg bin files cb w) = Alive
      \<and> fs (downloadIfNew cfg bin files cb w) =
          filter (\<lambda>e. \<not> (fst e \<in> set files \<and> indexOf (fst e) (prefix bin) \<noteq> - 1)) (fs w))
   \<and> (command (args cfg) = ''update'' \<and> os_type (hst cfg) \<noteq> ''Windows_NT''
      \<and> \<not> existsSync (filename (ie (the_binaries (webdriverVersions cfg) (hst cfg)))) d
      \<and> (\<forall>f. existsSync f d \<and> indexOf f ''IEDriverServer'' \<noteq> - 1 \<longrightarrow>
             indexOf f ''selenium-server-standalone'' = - 1 \<and> indexOf f ''chromedriver_'' = - 1)
      \<longrightarrow>
        requests (main cfg d) = requests (main (without_ie cfg) d)
      \<and> pending (main cfg d) = pending (main (without_ie cfg) d)
      \<and> status (main cfg d) = status (main (without_ie cfg) d)
      \<and> (\<forall>g. indexOf g ''IEDriverServer'' = - 1 \<longrightarrow>
             existsSync g (fs (main cfg d)) = existsSync g (fs (main (without_ie cfg) d))))"
proof (rule conjI; rule impI)
  assume "\<not> exists bin \<and> falsy (url bin) \<and> status w = Alive \<and> distinct files
      \<and> (\<forall>f \<in> set files. indexOf f (prefix bin) \<noteq> - 1 \<longrightarrow> existsSync f (fs w))
      \<and> (\<forall>p \<in> set (pending w). fileName p \<notin> set files)"
  then show "console (downloadIfNew cfg bin files cb w) =
           console w @ [(Out, ''Updating '' @ name bin),
                        (Err, name bin @ '' is not available for your system.'')]
      \<and> requests (downloadIfNew cfg bin files cb w) = requests w
      \<and> pending (downloadIfNew cfg bin files cb w) = pending w
      \<and> status (downloadIfNew cfg bin files cb w) = Alive
      \<and> fs (downloadIfNew cfg bin files cb w) =
          filter (\<lambda>e. \<not> (fst e \<in> set files \<and> indexOf (fst e) (prefix bin) \<noteq> - 1)) (fs w)"
    using unavailable_effect [of bin w files cfg cb] by blast
next
  assume a: "command (args cfg) = ''update'' \<and> os_type (hst cfg) \<noteq> ''Windows_NT''
      \<and> \<not> existsSync (filename (ie (the_binaries (webdriverVersions cfg) (hst cfg)))) d
      \<and> (\<forall>f. existsSync f d \<and> indexOf f ''IEDriverServer'' \<noteq> - 1 \<longrightarrow>
             indexOf f ''selenium-server-standalone'' = - 1 \<and> indexOf f ''chromedriver_'' = - 1)"
  let ?bins = "scan_all d (the_binaries (webdriverVersions cfg) (hst cfg))"
  let ?w2 = "main (without_ie cfg) d"
  let ?files = "readdirSync d"
  have w2: "?w2 = update (without_ie cfg) ?bins ?files (init d)"
    using a by (simp add: main_update without_ie_def)
  have m: "main cfg d =
      (if status ?w2 = Alive \<and> argv_ie (args cfg)
       then downloadIfNew cfg (ie ?bins) ?files (Some IeInstall) ?w2 else ?w2)"
    using a main_without_ie [of cfg d] by (simp add: Let_def)
  show "requests (main cfg d) = requests ?w2
      \<and> pending (main cfg d) = pending ?w2
      \<and> status (main cfg d) = status ?w2
      \<and> (\<forall>g. indexOf g ''IEDriverServer'' = - 1 \<longrightarrow>
             existsSync g (fs (main cfg d)) = existsSync g (fs ?w2))"
  proof (cases "status ?w2 = Alive \<and> argv_ie (args cfg)")
    case False
    then show ?thesis using m by auto
  next
    case True
    have pre: "prefix (ie ?bins) = ''IEDriverServer''"
      by (simp add: scan_all_def scan_def the_binaries_def)
    have h1: "\<not> exists (ie ?bins)"
      using a by (simp add: scan_all_def scan_exists)
    have h2: "falsy (url (ie ?bins))"
      using a by (simp add: scan_all_def scan_def the_binaries_def ie_url_def falsy_def)
    have h3: "status ?w2 = Alive" using True by simp
    have h4: "distinct ?files" by (simp add: readdirSync_def)
    have h5: "\<forall>f \<in> set ?files. indexOf f (prefix (ie ?bins)) \<noteq> - 1 \<longrightarrow> existsSync f (fs ?w2)"
    proof (intro ballI impI)
      fix f assume "f \<in> set ?files" and "indexOf f (prefix (ie ?bins)) \<noteq> - 1"
      then have "existsSync f d" and "indexOf f ''selenium-server-standalone'' = - 1"
        and "indexOf f ''chromedriver_'' = - 1"
        using a by (auto simp: readdirSync_set pre)
      then show "existsSync f (fs ?w2)"
        unfolding w2 by (rule update_without_ie_frame)
    qed
    have h6: "\<forall>p \<in> set (pending ?w2). fileName p \<notin> set ?files"
      unfolding w2 by (rule update_without_ie_pending)
    from unavailable_effect [OF h1 h2 h3 h4 h5 h6, of cfg "Some IeInstall"] m True
    have r: "requests (main cfg d) = requests ?w2" "pending (main cfg d) = pending ?w2"
      "status (main cfg d) = status ?w2"
      and f: "fs (main cfg d) =
        filter (\<lambda>e. \<not> (fst e \<in> set ?files \<and> indexOf (fst e) (prefix (ie ?bins)) \<noteq> - 1)) (fs ?w2)"
      by simp_all
    have "\<forall>g. indexOf g ''IEDriverServer'' = - 1 \<longrightarrow>
        existsSync g (fs (main cfg d)) = existsSync g (fs ?w2)"
      by (auto simp: f pre existsSync_def)
    then show ?thesis using r by simp
  qed
qed

lemma example_overlap_update:
  "main (example_cfg ''update'' linux_host False True True)
      [(''chromedriver_IEDriverServer_bak.zip'', ''bak'')] =
     \<lparr> fs = [(''chromedriver_2.10.zip'', [])],
       console = [(Out, ''Updating chromedriver''),
         (Out, ''downloading https://chromedriver.storage.googleapis.com/2.10/chromedriver_linux64.zip...'')],
       requests = [''https://chromedriver.storage.googleapis.com/2.10/chromedriver_linux64.zip''],
       pending = [\<lparr>fileUrl = ''https://chromedriver.storage.googleapis.com/2.10/chromedriver_linux64.zip'',
          fileName = ''chromedriver_2.10.zip'', fetch_callback = Some (Wrapper (Some ChromeInstall)),
          linked = True\<rparr>],
       spawned = [], supervising = False,
       status = Uncaught (ENOENT ''chromedriver_IEDriverServer_bak.zip'') \<rparr>"
  by (simp add: model_defs)

lemma example_overlap_update_without_ie:
  "main (example_cfg ''update'' linux_host False True False)
      [(''chromedriver_IEDriverServer_bak.zip'', ''bak'')] =
   main (example_cfg ''update'' linux_host False True False)
      [(''chromedriver_2.9.zip'', ''old'')]"
  by (simp add: example_chrome_update) (simp add: model_defs)


text \<open>
  Claim C6, at an input where the script departs from it. On Linux, with chromedriver
  and the IEDriver selected and neither present, the directory holds
  \<^verbatim>\<open>chromedriver_IEDriverServer_bak.zip\<close>, a name that contains both prefixes. The
  IEDriver has no URL on this host, so the run is to print that it is not available and
  leave chromedriver alone. The loop of chromedriver unlinks the name; the loop of the
  IEDriver goes through the same listing, unlinks it again and throws: the line is not
  printed, the script ends, and the fetch of chromedriver, already under way, is never
  installed, as it is in the same run without the IEDriver.
\<close>

theorem C6_stale_name_with_two_prefixes_throws:
  "\<not> exists (scan [(''chromedriver_IEDriverServer_bak.zip'', ''bak'')]
        (ie (the_binaries example_versions linux_host)))
   \<and> falsy (url (scan [(''chromedriver_IEDriverServer_bak.zip'', ''bak'')]
        (ie (the_binaries example_versions linux_host))))
   \<and> status (main (example_cfg ''update'' linux_host False True True)
        [(''chromedriver_IEDriverServer_bak.zip'', ''bak'')]) =
       Uncaught (ENOENT ''chromedriver_IEDriverServer_bak.zip'')
   \<and> (Err, ''IEDriver is not available for your system.'') \<notin>
        set (console (main (example_cfg ''update'' linux_host False True True)
          [(''chromedriver_IEDriverServer_bak.zip'', ''bak'')]))
   \<and> \<not> existsSync ''chromedriver''
        (fs (run (example_cfg ''update'' linux_host False True True)
          (ok_events 0 [''PK-'', ''chrome''])
          (main (example_cfg ''update'' linux_host False True True)
            [(''chromedriver_IEDriverServer_bak.zip'', ''bak'')])))
   \<and> existsSync ''chromedriver''
        (fs (run (without_ie (example_cfg ''update'' linux_host False True True))
          (ok_events 0 [''PK-'', ''chrome''])
          (main (without_ie (example_cfg ''update'' linux_host False True True))
            [(''chromedriver_IEDriverServer_bak.zip'', ''bak'')])))"
proof -
  let ?d = "[(''chromedriver_IEDriverServer_bak.zip'', ''bak'')]"
  let ?bin = "scan ?d (ie (the_binaries example_versions linux_host))"
  let ?cfg = "example_cfg ''update'' linux_host False True True"
  have h1: "\<not> exists ?bin"
    by (simp add: scan_def the_binaries_def example_versions_def existsSync_def)
  have h2: "falsy (url ?bin)"
    by (simp add: scan_def the_binaries_def falsy_def ie_url_def linux_host_def)
  have st: "status (main ?cfg ?d) = Uncaught (ENOENT ''chromedriver_IEDriverServer_bak.zip'')"
    by (simp add: example_overlap_update)
  have co: "(Err, ''IEDriver is not available for your system.'') \<notin> set (console (main ?cfg ?d))"
    by (simp add: example_overlap_update)
  have "run ?cfg (ok_events 0 [''PK-'', ''chrome'']) (main ?cfg ?d) = main ?cfg ?d"
    using st by (simp add: run_not_alive)
  then have dead: "\<not> existsSync ''chromedriver''
      (fs (run ?cfg (ok_events 0 [''PK-'', ''chrome'']) (main ?cfg ?d)))"
    by (simp add: example_overlap_update existsSync_def)
  have wo: "without_ie ?cfg = example_cfg ''update'' linux_host False True False"
    by (simp add: without_ie_def example_cfg_def)
  have live: "existsSync ''chromedriver''
      (fs (run (without_ie ?cfg) (ok_events 0 [''PK-'', ''chrome'']) (main (without_ie ?cfg) ?d)))"
    by (simp add: wo example_overlap_update_without_ie example_chrome_run existsSync_def)
  from h1 h2 st co dead live show ?thesis by blast
qed


text \<open>
  Claim C2, amended. For a descriptor that is not present and has a URL, the download
  starts in the world the loop of deletions leaves, in which no name of the directory
  contains the prefix and no request has been sent. After a successful fetch (and
  extraction, for an archive) the expected file is in the directory, and every other name
  that contains the prefix is an entry extracted from the archive; no stale name of
  before the run remains. The claim says that no other name contains the prefix: that
  fails for the IEDriver, whose extracted \<^verbatim>\<open>IEDriverServer.exe\<close> contains the prefix
  \<^verbatim>\<open>IEDriverServer\<close>.
\<close>

theorem C2_stale_files_deleted_before_download:
  assumes "\<not> exists bin" and "\<not> falsy (url bin)" and "status w = Alive"
    and "distinct files"
    and "\<forall>f. indexOf f (prefix bin) \<noteq> - 1 \<longrightarrow> (f \<in> set files) = existsSync f (fs w)"
    and "cb \<noteq> None \<longrightarrow> unzip cfg (concat chunks) = Some es"
  shows "downloadIfNew cfg bin files cb w =
           httpGetFile cfg (the (url bin)) (filename bin) (Some (Wrapper cb))
             (console_log (''Updating '' @ name bin) (unlink_matching (prefix bin) files w))
    \<and> (\<forall>g. existsSync g (fs (unlink_matching (prefix bin) files w)) \<longrightarrow>
            indexOf g (prefix bin) = - 1)
    \<and> requests (unlink_matching (prefix bin) files w) = requests w
    \<and> existsSync (filename bin)
        (fs (run cfg (ok_events (length (pending w)) chunks) (downloadIfNew cfg bin files cb w)))
    \<and> (\<forall>g. existsSync g
              (fs (run cfg (ok_events (length (pending w)) chunks)
                 (downloadIfNew cfg bin files cb w)))
            \<and> indexOf g (prefix bin) \<noteq> - 1 \<longrightarrow>
            g = filename bin \<or> (cb \<noteq> None \<and> g \<in> fst ` set es))"
proof -
  have pre: "\<forall>f \<in> set files. indexOf f (prefix bin) \<noteq> - 1 \<longrightarrow> existsSync f (fs w)"
    using assms(5) by blast
  let ?w1 = "unlink_matching (prefix bin) files w"
  from unlink_matching_ok [OF assms(3,4) pre]
  have fs1: "fs ?w1 = filter (\<lambda>e. \<not> (fst e \<in> set files \<and> indexOf (fst e) (prefix bin) \<noteq> - 1)) (fs w)"
    by simp
  have clean: "\<forall>g. existsSync g (fs ?w1) \<longrightarrow> indexOf g (prefix bin) = - 1"
  proof (intro allI impI)
    fix g assume "existsSync g (fs ?w1)"
    then have "existsSync g (fs w)" and "\<not> (g \<in> set files \<and> indexOf g (prefix bin) \<noteq> - 1)"
      by (auto simp: fs1 existsSync_def)
    then show "indexOf g (prefix bin) = - 1" using assms(5) by auto
  qed
  note names = reconcile_names [OF assms(1,2,3,4) pre assms(6)]
  have here: "existsSync (filename bin)
        (fs (run cfg (ok_events (length (pending w)) chunks) (downloadIfNew cfg bin files cb w)))"
    by (simp add: names)
  have only: "\<forall>g. existsSync g (fs (run cfg (ok_events (length (pending w)) chunks)
                 (downloadIfNew cfg bin files cb w)))
            \<and> indexOf g (prefix bin) \<noteq> - 1 \<longrightarrow>
            g = filename bin \<or> (cb \<noteq> None \<and> g \<in> fst ` set es)"
    using assms(5) by (auto simp: names)
  from reconcile_alive_after_fetch [OF assms(1,2,3,4) pre, of cfg cb] clean here only
  show ?thesis by simp
qed


text \<open>
  Claim C8, amended. After a successful reconciliation of a descriptor that was not
  present, the directory holds the downloaded file under the expected name and, for the
  two archives, also every entry extracted from it: the archive is kept (its name is what
  the next scan looks for) beside its contents. For the standalone jar the expected file
  is the only name added. Of the names of before, exactly the listed ones that contain
  the prefix are gone. The claim says one file per selected binary: that fails for
  chromedriver, which leaves the archive and the executable.
\<close>

theorem C8_archive_and_contents_remain:
  assumes "\<not> exists bin" and "\<not> falsy (url bin)" and "status w = Alive"
    and "distinct files"
    and "\<forall>f \<in> set files. indexOf f (prefix bin) \<noteq> - 1 \<longrightarrow> existsSync f (fs w)"
    and "unzip cfg (concat chunks) = Some es"
  shows "existsSync g (fs (run cfg (ok_events (length (pending w)) chunks)
            (downloadIfNew cfg bin files (Some inst) w))) =
          (g = filename bin \<or> g \<in> fst ` set es
           \<or> (existsSync g (fs w) \<and> \<not> (g \<in> set files \<and> indexOf g (prefix bin) \<noteq> - 1)))
    \<and> existsSync g (fs (run cfg (ok_events (length (pending w)) chunks)
            (downloadIfNew cfg bin files None w))) =
          (g = filename bin
           \<or> (existsSync g (fs w) \<and> \<not> (g \<in> set files \<and> indexOf g (prefix bin) \<noteq> - 1)))"
proof -
  have a: "Some inst \<noteq> None \<longrightarrow> unzip cfg (concat chunks) = Some es"
    using assms(6) by simp
  have b: "(None :: installer option) \<noteq> None \<longrightarrow> unzip cfg (concat chunks) = Some es"
    by simp
  from reconcile_names [OF assms(1,2,3,4,5) a, of g] reconcile_names [OF assms(1,2,3,4,5) b, of g]
  show ?thesis by simp
qed

lemma example_chrome_overwrite_run:
  "fs (run (example_cfg ''update'' linux_host False True False) (ok_events 0 [''PK-'', ''chrome''])
     (main (example_cfg ''update'' linux_host False True False)
        [(''chromedriver'', ''ELF-old'')])) =
     [(''chromedriver'', ''ELF-new''), (''chromedriver_2.10.zip'', ''PK-chrome'')]"
  by (simp add: model_defs)
    (simp add: handler_defs example_cfg_def console_log_def writeFile_def remove_entry_def
      existsSync_def linux_host_def throw_def)

lemma example_ie_licensed_status:
  "status (run (example_cfg ''update'' windows_host False False True) (ok_events 0 [''PK-ie-licensed''])
     (main (example_cfg ''update'' windows_host False False True)
        [(''license.txt'', ''old terms'')])) = Alive"
  by (simp add: model_defs)
    (simp add: handler_defs example_cfg_def console_log_def writeFile_def remove_entry_def
      existsSync_def windows_host_def)


text \<open>
  Claim C7, at an input where the script departs from it. Every installer is to extract
  with overwriting, so that an entry of the archive replaces a file of the same name. The
  callback of chromedriver does (it passes the flag): an old \<^verbatim>\<open>chromedriver\<close> holds
  the bytes of the archive after the run. The callback of the IEDriver calls
  \<^verbatim>\<open>extractAllTo\<close> without the flag: on Windows, with \<^verbatim>\<open>license.txt\<close> in the
  output directory and an archive that holds \<^verbatim>\<open>IEDriverServer.exe\<close> and
  \<^verbatim>\<open>license.txt\<close>, the run succeeds and \<^verbatim>\<open>license.txt\<close> keeps its old bytes.
\<close>

theorem C7_ie_extraction_keeps_existing_entry:
  "unzip (example_cfg ''update'' windows_host False False True) ''PK-ie-licensed'' =
      Some [(''IEDriverServer.exe'', ''MZ-new''), (''license.txt'', ''new terms'')]
   \<and> status (run (example_cfg ''update'' windows_host False False True)
         (ok_events 0 [''PK-ie-licensed''])
         (main (example_cfg ''update'' windows_host False False True)
           [(''license.txt'', ''old terms'')])) = Alive
   \<and> readFile ''license.txt''
       (fs (run (example_cfg ''update'' windows_host False False True)
         (ok_events 0 [''PK-ie-licensed''])
         (main (example_cfg ''update'' windows_host False False True)
           [(''license.txt'', ''old terms'')]))) = Some ''old terms''
   \<and> unzip (example_cfg ''update'' linux_host False True False) (concat [''PK-'', ''chrome'']) =
      Some [(''chromedriver'', ''ELF-new'')]
   \<and> readFile ''chromedriver''
       (fs (run (example_cfg ''update'' linux_host False True False)
         (ok_events 0 [''PK-'', ''chrome''])
         (main (example_cfg ''update'' linux_host False True False)
           [(''chromedriver'', ''ELF-old'')]))) = Some ''ELF-new''"
  by (simp add: example_ie_licensed_run example_ie_licensed_status example_chrome_overwrite_run)
    (simp add: readFile_def example_cfg_def example_unzip_def)

subsection \<open>The theorems on the examples\<close>

theorem C2_stale_files_deleted_before_download_witness:
  "\<not> exists (scan [(''chromedriver_2.9.zip'', ''old''), (''chromedriver'', ''ELF-old'')]
        (chrome (the_binaries example_versions linux_host)))
   \<and> \<not> falsy (url (scan [(''chromedriver_2.9.zip'', ''old''), (''chromedriver'', ''ELF-old'')]
        (chrome (the_binaries example_versions linux_host))))
   \<and> existsSync ''chromedriver_2.9.zip''
        [(''chromedriver_2.9.zip'', ''old''), (''chromedriver'', ''ELF-old'')]
   \<and> existsSync ''chromedriver_2.10.zip''
        (fs (run (example_cfg ''update'' linux_host False True False)
          (ok_events 0 [''PK-'', ''chrome''])
          (downloadIfNew (example_cfg ''update'' linux_host False True False)
            (scan [(''chromedriver_2.9.zip'', ''old''), (''chromedriver'', ''ELF-old'')]
              (chrome (the_binaries example_versions linux_host)))
            (readdirSync [(''chromedriver_2.9.zip'', ''old''), (''chromedriver'', ''ELF-old'')])
            (Some ChromeInstall)
            (init [(''chromedriver_2.9.zip'', ''old''), (''chromedriver'', ''ELF-old'')]))))
   \<and> \<not> existsSync ''chromedriver_2.9.zip''
        (fs (run (example_cfg ''update'' linux_host False True False)
          (ok_events 0 [''PK-'', ''chrome''])
          (downloadIfNew (example_cfg ''update'' linux_host False True False)
            (scan [(''chromedriver_2.9.zip'', ''old''), (''chromedriver'', ''ELF-old'')]
              (chrome (the_binaries example_versions linux_host)))
            (readdirSync [(''chromedriver_2.9.zip'', ''old''), (''chromedriver'', ''ELF-old'')])
            (Some ChromeInstall)
            (init [(''chromedriver_2.9.zip'', ''old''), (''chromedriver'', ''ELF-old'')]))))"
proof -
  let ?d = "[(''chromedriver_2.9.zip'', ''old''), (''chromedriver'', ''ELF-old'')]"
  let ?bin = "scan ?d (chrome (the_binaries example_versions linux_host))"
  let ?cfg = "example_cfg ''update'' linux_host False True False"
  let ?files = "readdirSync ?d"
  let ?es = "[(''chromedriver'', ''ELF-new'')]"
  have h1: "\<not> exists ?bin"
    by (simp add: scan_def the_binaries_def example_versions_def existsSync_def)
  have h2: "\<not> falsy (url ?bin)"
    by (simp add: scan_def the_binaries_def falsy_def chrome_url_def linux_host_def)
  have h3: "status (init ?d) = Alive" by (simp add: init_def)
  have h4: "distinct ?files" by (simp add: readdirSync_def)
  have h5: "\<forall>f. indexOf f (prefix ?bin) \<noteq> - 1 \<longrightarrow> (f \<in> set ?files) = existsSync f (fs (init ?d))"
    by (simp add: readdirSync_set init_def)
  have h6: "Some ChromeInstall \<noteq> None \<longrightarrow>
      unzip ?cfg (concat [''PK-'', ''chrome'']) = Some ?es"
    by (simp add: example_cfg_def example_unzip_def)
  have ex: "existsSync ''chromedriver_2.9.zip'' ?d" by (simp add: existsSync_def)
  have fn: "filename ?bin = ''chromedriver_2.10.zip''" "prefix ?bin = ''chromedriver_''"
    by (simp_all add: scan_def the_binaries_def example_versions_def)
  have ix: "indexOf ''chromedriver_2.9.zip'' ''chromedriver_'' \<noteq> - 1"
    by (simp add: indexOf_def)
  have p0: "length (pending (init ?d)) = 0" by (simp add: init_def)
  let ?final = "run ?cfg (ok_events 0 [''PK-'', ''chrome''])
      (downloadIfNew ?cfg ?bin ?files (Some ChromeInstall) (init ?d))"
  from C2_stale_files_deleted_before_download [OF h1 h2 h3 h4 h5 h6]
  have a: "existsSync (filename ?bin) (fs ?final)"
    and b: "\<forall>g. existsSync g (fs ?final) \<and> indexOf g (prefix ?bin) \<noteq> - 1 \<longrightarrow>
        g = filename ?bin \<or> (Some ChromeInstall \<noteq> None \<and> g \<in> fst ` set ?es)"
    unfolding p0 by blast+
  from b [rule_format, of "''chromedriver_2.9.zip''"] ix
  have "\<not> existsSync ''chromedriver_2.9.zip'' (fs ?final)"
    by (auto simp: fn)
  then show ?thesis using h1 h2 ex a by (simp add: fn)
qed

theorem C2_stale_files_deleted_before_download_counterexample:
  "status (run (example_cfg ''update'' windows_host False False True) (ok_events 0 [''PK-'', ''ie''])
      (main (example_cfg ''update'' windows_host False False True)
        [(''IEDriverServer_2.41.0.zip'', ''PK-old''), (''IEDriverServer.exe'', ''MZ-old'')])) = Alive
   \<and> existsSync ''IEDriverServer_2.42.0.zip''
       (fs (run (example_cfg ''update'' windows_host False False True) (ok_events 0 [''PK-'', ''ie''])
         (main (example_cfg ''update'' windows_host False False True)
           [(''IEDriverServer_2.41.0.zip'', ''PK-old''), (''IEDriverServer.exe'', ''MZ-old'')])))
   \<and> existsSync ''IEDriverServer.exe''
       (fs (run (example_cfg ''update'' windows_host False False True) (ok_events 0 [''PK-'', ''ie''])
         (main (example_cfg ''update'' windows_host False False True)
           [(''IEDriverServer_2.41.0.zip'', ''PK-old''), (''IEDriverServer.exe'', ''MZ-old'')])))
   \<and> indexOf ''IEDriverServer.exe''
         (prefix (ie (the_binaries example_versions windows_host))) \<noteq> - 1
   \<and> ''IEDriverServer.exe'' \<noteq> filename (ie (the_binaries example_versions windows_host))"
  by (simp add: example_ie_run existsSync_def the_binaries_def example_versions_def indexOf_def)

theorem C8_archive_and_contents_remain_counterexample:
  "status (run (example_cfg ''update'' linux_host False True False)
      (ok_events 0 [''PK-'', ''chrome''])
      (main (example_cfg ''update'' linux_host False True False)
        [(''chromedriver_2.9.zip'', ''old'')])) = Alive
   \<and> length (selected (example_cfg ''update'' linux_host False True False)) = 1
   \<and> readdirSync (fs (run (example_cfg ''update'' linux_host False True False)
      (ok_events 0 [''PK-'', ''chrome''])
      (main (example_cfg ''update'' linux_host False True False)
        [(''chromedriver_2.9.zip'', ''old'')]))) = [''chromedriver'', ''chromedriver_2.10.zip'']"
  by (simp add: example_chrome_run readdirSync_def) (simp add: selected_def example_cfg_def)

theorem C8_archive_and_contents_remain_witness:
  "\<not> exists (scan [(''chromedriver_2.9.zip'', ''old''), (''chromedriver'', ''ELF-old'')]
        (chrome (the_binaries example_versions linux_host)))
   \<and> \<not> falsy (url (scan [(''chromedriver_2.9.zip'', ''old''), (''chromedriver'', ''ELF-old'')]
        (chrome (the_binaries example_versions linux_host))))
   \<and> unzip (example_cfg ''update'' linux_host False True False) (concat [''PK-'', ''chrome'']) =
        Some [(''chromedriver'', ''ELF-new'')]
   \<and> existsSync ''chromedriver_2.10.zip''
        (fs (run (example_cfg ''update'' linux_host False True False)
          (ok_events 0 [''PK-'', ''chrome''])
          (downloadIfNew (example_cfg ''update'' linux_host False True False)
            (scan [(''chromedriver_2.9.zip'', ''old''), (''chromedriver'', ''ELF-old'')]
              (chrome (the_binaries example_versions linux_host)))
            (readdirSync [(''chromedriver_2.9.zip'', ''old''), (''chromedriver'', ''ELF-old'')])
            (Some ChromeInstall)
            (init [(''chromedriver_2.9.zip'', ''old''), (''chromedriver'', ''ELF-old'')]))))
   \<and> existsSync ''chromedriver''
        (fs (run (example_cfg ''update'' linux_host False True False)
          (ok_events 0 [''PK-'', ''chrome''])
          (downloadIfNew (example_cfg ''update'' linux_host False True False)
            (scan [(''chromedriver_2.9.zip'', ''old''), (''chromedriver'', ''ELF-old'')]
              (chrome (the_binaries example_versions linux_host)))
            (readdirSync [(''chromedriver_2.9.zip'', ''old''), (''chromedriver'', ''ELF-old'')])
            (Some ChromeInstall)
            (init [(''chromedriver_2.9.zip'', ''old''), (''chromedriver'', ''ELF-old'')]))))
   \<and> \<not> existsSync ''chromedriver_2.9.zip''
        (fs (run (example_cfg ''update'' linux_host False True False)
          (ok_events 0 [''PK-'', ''chrome''])
          (downloadIfNew (example_cfg ''update'' linux_host False True False)
            (scan [(''chromedriver_2.9.zip'', ''old''), (''chromedriver'', ''ELF-old'')]
              (chrome (the_binaries example_versions linux_host)))
            (readdirSync [(''chromedriver_2.9.zip'', ''old''), (''chromedriver'', ''ELF-old'')])
            None
            (init [(''chromedriver_2.9.zip'', ''old''), (''chromedriver'', ''ELF-old'')]))))"
proof -
  let ?d = "[(''chromedriver_2.9.zip'', ''old''), (''chromedriver'', ''ELF-old'')]"
  let ?bin = "scan ?d (chrome (the_binaries example_versions linux_host))"
  let ?cfg = "example_cfg ''update'' linux_host False True False"
  let ?files = "readdirSync ?d"
  let ?es = "[(''chromedriver'', ''ELF-new'')]"
  have h1: "\<not> exists ?bin"
    by (simp add: scan_def the_binaries_def example_versions_def existsSync_def)
  have h2: "\<not> falsy (url ?bin)"
    by (simp add: scan_def the_binaries_def falsy_def chrome_url_def linux_host_def)
  have h3: "status (init ?d) = Alive" by (simp add: init_def)
  have h4: "distinct ?files" by (simp add: readdirSync_def)
  have h5: "\<forall>f \<in> set ?files. indexOf f (prefix ?bin) \<noteq> - 1 \<longrightarrow> existsSync f (fs (init ?d))"
    by (simp add: readdirSync_set init_def)
  have h6: "unzip ?cfg (concat [''PK-'', ''chrome'']) = Some ?es"
    by (simp add: example_cfg_def example_unzip_def)
  have fn: "filename ?bin = ''chromedriver_2.10.zip''" "prefix ?bin = ''chromedriver_''"
    by (simp_all add: scan_def the_binaries_def example_versions_def)
  have ix: "indexOf ''chromedriver_2.9.zip'' ''chromedriver_'' \<noteq> - 1"
    by (simp add: indexOf_def)
  have mem: "''chromedriver_2.9.zip'' \<in> set ?files" by (simp add: readdirSync_def)
  have p0: "length (pending (init ?d)) = 0" by (simp add: init_def)
  note at = C8_archive_and_contents_remain [OF h1 h2 h3 h4 h5 h6, of _ ChromeInstall, unfolded p0]
  from at [of "''chromedriver_2.10.zip''"] at [of "''chromedriver''"]
    at [of "''chromedriver_2.9.zip''"] ix mem
  show ?thesis using h1 h2 h6 by (simp add: fn)
qed

end
